theory Spec2Isabelle
  imports Complex_Main "HOL-Library.Multiset"
begin

section \<open>Numbers, series and data frames\<close>

text \<open>
  The program computes on pandas columns of 64-bit floats. A cell is modelled by
  \<open>fval\<close>: a real number, one of the two infinities, or NaN (the "undefined"
  value of a warm-up prefix). Arithmetic follows IEEE 754 on the special values
  (division of a non-zero number by zero is an infinity, \<open>0 / 0\<close> is NaN, NaN
  propagates). The sign of zero is not modelled: a zero divisor is taken as \<open>+0\<close>.
  The operations \<open>fadd\<close>, \<open>fsub\<close>, \<open>fmul\<close> and \<open>fdiv\<close> are exact on numbers;
  \<open>fl_sub\<close>, \<open>fl_mul\<close> and \<open>fl_div\<close> further down round their result to double
  precision, and are the ones used where the scorer compares a computed return with
  thresholds that an exact result can hit.
\<close>

datatype fval = Fin real | PInf | NInf | NaN

fun fneg :: "fval \<Rightarrow> fval" where
  "fneg (Fin a) = Fin (- a)"
| "fneg PInf = NInf"
| "fneg NInf = PInf"
| "fneg NaN = NaN"

fun fadd :: "fval \<Rightarrow> fval \<Rightarrow> fval" where
  "fadd NaN _ = NaN"
| "fadd _ NaN = NaN"
| "fadd PInf NInf = NaN"
| "fadd NInf PInf = NaN"
| "fadd PInf _ = PInf"
| "fadd _ PInf = PInf"
| "fadd NInf _ = NInf"
| "fadd _ NInf = NInf"
| "fadd (Fin a) (Fin b) = Fin (a + b)"

definition fsub :: "fval \<Rightarrow> fval \<Rightarrow> fval" where
  "fsub a b = fadd a (fneg b)"

fun fmul :: "fval \<Rightarrow> fval \<Rightarrow> fval" where
  "fmul NaN _ = NaN"
| "fmul _ NaN = NaN"
| "fmul (Fin a) (Fin b) = Fin (a * b)"
| "fmul (Fin a) PInf = (if a = 0 then NaN else if 0 < a then PInf else NInf)"
| "fmul (Fin a) NInf = (if a = 0 then NaN else if 0 < a then NInf else PInf)"
| "fmul PInf (Fin b) = (if b = 0 then NaN else if 0 < b then PInf else NInf)"
| "fmul NInf (Fin b) = (if b = 0 then NaN else if 0 < b then NInf else PInf)"
| "fmul PInf PInf = PInf"
| "fmul NInf NInf = PInf"
| "fmul PInf NInf = NInf"
| "fmul NInf PInf = NInf"

fun fdiv :: "fval \<Rightarrow> fval \<Rightarrow> fval" where
  "fdiv NaN _ = NaN"
| "fdiv _ NaN = NaN"
| "fdiv (Fin a) (Fin b) =
     (if b = 0 then (if a = 0 then NaN else if 0 < a then PInf else NInf)
      else Fin (a / b))"
| "fdiv (Fin a) PInf = Fin 0"
| "fdiv (Fin a) NInf = Fin 0"
| "fdiv PInf (Fin b) = (if 0 \<le> b then PInf else NInf)"
| "fdiv NInf (Fin b) = (if 0 \<le> b then NInf else PInf)"
| "fdiv PInf PInf = NaN"
| "fdiv PInf NInf = NaN"
| "fdiv NInf PInf = NaN"
| "fdiv NInf NInf = NaN"

text \<open>Comparisons: every comparison with NaN is false.\<close>

fun flt :: "fval \<Rightarrow> fval \<Rightarrow> bool" where
  "flt (Fin a) (Fin b) = (a < b)"
| "flt (Fin a) PInf = True"
| "flt NInf (Fin b) = True"
| "flt NInf PInf = True"
| "flt _ _ = False"

fun fle :: "fval \<Rightarrow> fval \<Rightarrow> bool" where
  "fle (Fin a) (Fin b) = (a \<le> b)"
| "fle (Fin a) PInf = True"
| "fle NInf (Fin b) = True"
| "fle NInf PInf = True"
| "fle PInf PInf = True"
| "fle NInf NInf = True"
| "fle _ _ = False"

definition fgt :: "fval \<Rightarrow> fval \<Rightarrow> bool" where
  "fgt a b = flt b a"

definition fge :: "fval \<Rightarrow> fval \<Rightarrow> bool" where
  "fge a b = fle b a"

fun is_fin :: "fval \<Rightarrow> bool" where
  "is_fin (Fin a) = True"
| "is_fin _ = False"

fun fin_val :: "fval \<Rightarrow> real" where
  "fin_val (Fin a) = a"
| "fin_val _ = 0"

text \<open>
  Rounding to binary64, to nearest with ties to even. \<open>round_even\<close> rounds a real to
  an integer. \<open>rnd64 x\<close> takes the binary exponent \<open>e\<close> of \<open>x\<close> (not below -1022, where
  the subnormal numbers begin), rounds \<open>x\<close> to a multiple of \<open>2 ^ (e - 52)\<close>, and gives
  an infinity when the rounded magnitude reaches \<open>2 ^ 1024\<close>. An IEEE 754 operation is
  the exact operation followed by this rounding.
\<close>

definition round_even :: "real \<Rightarrow> int" where
  "round_even x =
     (let f = \<lfloor>x\<rfloor>; d = x - of_int f
      in if d < 1 / 2 then f else if 1 / 2 < d then f + 1 else if even f then f else f + 1)"

definition rnd64 :: "real \<Rightarrow> fval" where
  "rnd64 x =
     (if x = 0 then Fin 0
      else
        let e = max (- 1022) \<lfloor>log 2 \<bar>x\<bar>\<rfloor>;
            ulp = 2 powr (of_int e - 52);
            y = of_int (round_even (x / ulp)) * ulp
        in if 2 powr 1024 \<le> \<bar>y\<bar> then (if 0 < x then PInf else NInf) else Fin y)"

fun fround :: "fval \<Rightarrow> fval" where
  "fround (Fin x) = rnd64 x"
| "fround v = v"

definition fl_div :: "fval \<Rightarrow> fval \<Rightarrow> fval" where
  "fl_div a b = fround (fdiv a b)"

definition fl_sub :: "fval \<Rightarrow> fval \<Rightarrow> fval" where
  "fl_sub a b = fround (fsub a b)"

definition fl_mul :: "fval \<Rightarrow> fval \<Rightarrow> fval" where
  "fl_mul a b = fround (fmul a b)"

text \<open>Exceptions of the Python code that the model keeps as values.\<close>

datatype error = IndexError | KeyError

definition bindE :: "error + 'a \<Rightarrow> ('a \<Rightarrow> error + 'b) \<Rightarrow> error + 'b" where
  "bindE m f = (case m of Inl e \<Rightarrow> Inl e | Inr x \<Rightarrow> f x)"

text \<open>
  A DataFrame: the length of its index and its named columns. In a well-formed
  frame every column has the length of the index.
\<close>

record dataframe =
  index_len :: nat
  columns :: "string \<rightharpoonup> fval list"

definition wf_df :: "dataframe \<Rightarrow> bool" where
  "wf_df df = (\<forall>c xs. columns df c = Some xs \<longrightarrow> length xs = index_len df)"

definition has_col :: "dataframe \<Rightarrow> string \<Rightarrow> bool" where
  "has_col df c = (columns df c \<noteq> None)"

text \<open>\<open>df[c]\<close>: KeyError when the column is missing.\<close>

definition col :: "dataframe \<Rightarrow> string \<Rightarrow> error + fval list" where
  "col df c = (case columns df c of None \<Rightarrow> Inl KeyError | Some xs \<Rightarrow> Inr xs)"

text \<open>\<open>df[c] = xs\<close>.\<close>

definition set_col :: "dataframe \<Rightarrow> string \<Rightarrow> fval list \<Rightarrow> dataframe" where
  "set_col df c xs = df\<lparr>columns := (columns df)(c \<mapsto> xs)\<rparr>"

text \<open>\<open>df[c] = v\<close> for a scalar \<open>v\<close>: broadcast over the index.\<close>

definition set_col_scalar :: "dataframe \<Rightarrow> string \<Rightarrow> fval \<Rightarrow> dataframe" where
  "set_col_scalar df c v = set_col df c (replicate (index_len df) v)"

text \<open>\<open>df.empty\<close>: an axis of length 0.\<close>

definition empty_df :: "dataframe \<Rightarrow> bool" where
  "empty_df df = (index_len df = 0 \<or> columns df = Map.empty)"

text \<open>\<open>s.iloc[i]\<close>: a negative position counts from the end; IndexError out of range.\<close>

definition iloc :: "fval list \<Rightarrow> int \<Rightarrow> error + fval" where
  "iloc xs i =
     (if 0 \<le> i
      then (if nat i < length xs then Inr (xs ! nat i) else Inl IndexError)
      else (if nat (- i) \<le> length xs then Inr (xs ! (length xs - nat (- i)))
            else Inl IndexError))"

subsection \<open>Series operations of pandas\<close>

text \<open>\<open>s.diff()\<close>: NaN at the first position, then the difference with the previous value.\<close>

definition diff :: "fval list \<Rightarrow> fval list" where
  "diff xs = (case xs of [] \<Rightarrow> [] | x # rest \<Rightarrow> NaN # map (\<lambda>(a, b). fsub a b) (zip rest xs))"

text \<open>\<open>s.shift(1)\<close>.\<close>

definition shift1 :: "fval list \<Rightarrow> fval list" where
  "shift1 xs = (case xs of [] \<Rightarrow> [] | _ # _ \<Rightarrow> NaN # butlast xs)"

text \<open>\<open>s.clip(lower=l)\<close> and \<open>s.clip(upper=u)\<close>, on one cell; NaN stays NaN.\<close>

definition clip_lower :: "real \<Rightarrow> fval \<Rightarrow> fval" where
  "clip_lower l x = (if flt x (Fin l) then Fin l else x)"

definition clip_upper :: "real \<Rightarrow> fval \<Rightarrow> fval" where
  "clip_upper u x = (if flt (Fin u) x then Fin u else x)"

text \<open>
  \<open>s.ewm(alpha, adjust, min_periods).mean()\<close> with \<open>ignore_na=False\<close>, as pandas
  computes it: one pass that carries the current weighted mean \<open>weighted\<close>, the weight
  \<open>old_wt\<close> of the past and the number \<open>nobs\<close> of observations seen; \<open>ewm_nobs\<close>,
  \<open>ewm_weighted\<close> and \<open>ewm_old_wt\<close> are their values after one more cell. With
  \<open>adjust=True\<close> this is the mean weighted by \<open>(1 - alpha) ^ i\<close>, with
  \<open>adjust=False\<close> it is \<open>y\<^sub>t = (1 - alpha) * y\<^sub>t\<^sub>-\<^sub>1 + alpha * x\<^sub>t\<close> seeded by the first value.
\<close>

definition ewm_nobs :: "nat \<Rightarrow> fval \<Rightarrow> nat" where
  "ewm_nobs nobs cur = (if cur \<noteq> NaN then Suc nobs else nobs)"

definition ewm_weighted :: "real \<Rightarrow> bool \<Rightarrow> fval \<Rightarrow> real \<Rightarrow> fval \<Rightarrow> fval" where
  "ewm_weighted alpha adjust weighted old_wt cur =
     (let new_wt = (if adjust then 1 else alpha);
          old_wt1 = old_wt * (1 - alpha)
      in if weighted \<noteq> NaN then
           (if cur \<noteq> NaN then
              (if weighted \<noteq> cur
               then fdiv (fadd (fmul (Fin old_wt1) weighted) (fmul (Fin new_wt) cur))
                      (Fin (old_wt1 + new_wt))
               else weighted)
            else weighted)
         else if cur \<noteq> NaN then cur else weighted)"

definition ewm_old_wt :: "real \<Rightarrow> bool \<Rightarrow> fval \<Rightarrow> real \<Rightarrow> fval \<Rightarrow> real" where
  "ewm_old_wt alpha adjust weighted old_wt cur =
     (let new_wt = (if adjust then 1 else alpha);
          old_wt1 = old_wt * (1 - alpha)
      in if weighted \<noteq> NaN then
           (if cur \<noteq> NaN then (if adjust then old_wt1 + new_wt else 1) else old_wt1)
         else old_wt)"

fun ewm_loop :: "real \<Rightarrow> bool \<Rightarrow> nat \<Rightarrow> fval \<Rightarrow> real \<Rightarrow> nat \<Rightarrow> fval list \<Rightarrow> fval list" where
  "ewm_loop alpha adjust minp weighted old_wt nobs [] = []"
| "ewm_loop alpha adjust minp weighted old_wt nobs (cur # rest) =
     (if minp \<le> ewm_nobs nobs cur then ewm_weighted alpha adjust weighted old_wt cur else NaN)
       # ewm_loop alpha adjust minp
           (ewm_weighted alpha adjust weighted old_wt cur)
           (ewm_old_wt alpha adjust weighted old_wt cur)
           (ewm_nobs nobs cur) rest"

definition ewm_mean :: "real \<Rightarrow> bool \<Rightarrow> nat \<Rightarrow> fval list \<Rightarrow> fval list" where
  "ewm_mean alpha adjust min_periods xs =
     (let minp = max min_periods 1 in
      case xs of
        [] \<Rightarrow> []
      | x # rest \<Rightarrow>
          (let nobs = (if x \<noteq> NaN then 1 else 0)
           in (if minp \<le> nobs then x else NaN) # ewm_loop alpha adjust minp x 1 nobs rest))"

text \<open>\<open>ewm(com=c)\<close> has \<open>alpha = 1 / (1 + c)\<close>; \<open>ewm(span=s)\<close> has \<open>alpha = 2 / (s + 1)\<close>.\<close>

definition alpha_of_com :: "real \<Rightarrow> real" where
  "alpha_of_com c = 1 / (1 + c)"

definition alpha_of_span :: "real \<Rightarrow> real" where
  "alpha_of_span s = 2 / (s + 1)"

text \<open>
  \<open>s.rolling(window=w)\<close>: the window at position \<open>i\<close> holds the last \<open>w\<close> values up to
  \<open>i\<close>. With the default \<open>min_periods = w\<close> the result is NaN unless the window is
  full and every value in it is a number (pandas turns infinities into NaN first).
\<close>

definition window_at :: "nat \<Rightarrow> fval list \<Rightarrow> nat \<Rightarrow> fval list" where
  "window_at w xs i = drop (Suc i - w) (take (Suc i) xs)"

definition full_window :: "nat \<Rightarrow> fval list \<Rightarrow> bool" where
  "full_window w win = (length win = w \<and> 0 < w \<and> list_all is_fin win)"

definition mean :: "real list \<Rightarrow> real" where
  "mean ys = sum_list ys / real (length ys)"

definition window_mean :: "nat \<Rightarrow> fval list \<Rightarrow> fval" where
  "window_mean w win = (if full_window w win then Fin (mean (map fin_val win)) else NaN)"

text \<open>Sample standard deviation (\<open>ddof = 1\<close>) of a full window.\<close>

definition sample_std :: "real list \<Rightarrow> real" where
  "sample_std ys =
     sqrt (sum_list (map (\<lambda>y. (y - mean ys)\<^sup>2) ys) / (real (length ys) - 1))"

definition window_std :: "nat \<Rightarrow> fval list \<Rightarrow> fval" where
  "window_std w win =
     (if full_window w win \<and> 1 < w then Fin (sample_std (map fin_val win)) else NaN)"

definition rolling_mean :: "nat \<Rightarrow> fval list \<Rightarrow> fval list" where
  "rolling_mean w xs = map (\<lambda>i. window_mean w (window_at w xs i)) [0..<length xs]"

definition rolling_std :: "nat \<Rightarrow> fval list \<Rightarrow> fval list" where
  "rolling_std w xs = map (\<lambda>i. window_std w (window_at w xs i)) [0..<length xs]"

text \<open>Element-wise operations on two aligned series, and boolean masks.\<close>

definition series_op :: "(fval \<Rightarrow> fval \<Rightarrow> 'a) \<Rightarrow> fval list \<Rightarrow> fval list \<Rightarrow> 'a list" where
  "series_op f xs ys = map (\<lambda>(x, y). f x y) (zip xs ys)"

definition mask_and :: "bool list \<Rightarrow> bool list \<Rightarrow> bool list" where
  "mask_and ms ns = map (\<lambda>(m, n). m \<and> n) (zip ms ns)"

text \<open>\<open>df.loc[mask, c] = v\<close> on the column: the masked cells become \<open>v\<close>.\<close>

definition loc_assign :: "bool list \<Rightarrow> fval \<Rightarrow> fval list \<Rightarrow> fval list" where
  "loc_assign msk v xs = map (\<lambda>(m, x). if m then v else x) (zip msk xs)"


section \<open>The indicator engine (technical_indicators.py)\<close>

text \<open>
  Each \<open>calculate_*\<close> function of the source assigns new columns to the frame it is
  given and returns that same frame. The \<open>*_update\<close> functions below give the frame
  after the assignments (or the exception raised before any of them); the functions
  that carry the source's names run them on the object store further down.
\<close>

definition rsi_cell :: "fval \<Rightarrow> fval \<Rightarrow> fval" where
  "rsi_cell ma_up ma_down =
     fsub (Fin 100) (fdiv (Fin 100) (fadd (Fin 1) (fdiv ma_up ma_down)))"

text \<open>The smoothed up-moves and down-moves of a close series, and the RSI from them.\<close>

definition ma_up_of :: "nat \<Rightarrow> fval list \<Rightarrow> fval list" where
  "ma_up_of period close =
     (let close_delta = diff close;
          up = map (clip_lower 0) close_delta
      in ewm_mean (alpha_of_com (real period - 1)) True period up)"

definition ma_down_of :: "nat \<Rightarrow> fval list \<Rightarrow> fval list" where
  "ma_down_of period close =
     (let close_delta = diff close;
          down = map (\<lambda>x. fmul (Fin (- 1)) (clip_upper 0 x)) close_delta
      in ewm_mean (alpha_of_com (real period - 1)) True period down)"

definition rsi_update :: "nat \<Rightarrow> dataframe \<Rightarrow> error + dataframe" where
  "rsi_update period df =
     bindE (col df ''close'') (\<lambda>close.
       let ma_up = ma_up_of period close;
           ma_down = ma_down_of period close;
           rsi = series_op rsi_cell ma_up ma_down
       in Inr (set_col df ''RSI'' rsi))"

definition macd_update :: "nat \<Rightarrow> nat \<Rightarrow> nat \<Rightarrow> dataframe \<Rightarrow> error + dataframe" where
  "macd_update fast_period slow_period signal_period df =
     bindE (col df ''close'') (\<lambda>close.
       let ema_fast = ewm_mean (alpha_of_span (real fast_period)) False 0 close;
           ema_slow = ewm_mean (alpha_of_span (real slow_period)) False 0 close;
           macd = series_op fsub ema_fast ema_slow;
           macd_signal = ewm_mean (alpha_of_span (real signal_period)) False 0 macd;
           macd_hist = series_op fsub macd macd_signal
       in Inr (set_col (set_col (set_col df ''MACD'' macd) ''MACD_signal'' macd_signal)
                 ''MACD_hist'' macd_hist))"

definition bollinger_update :: "nat \<Rightarrow> real \<Rightarrow> dataframe \<Rightarrow> error + dataframe" where
  "bollinger_update period num_std df =
     bindE (col df ''close'') (\<lambda>close.
       let df1 = set_col df ''BB_middle'' (rolling_mean period close) in
       bindE (col df1 ''close'') (\<lambda>close1.
         let rolling_sd = rolling_std period close1;
             band = map (\<lambda>s. fmul s (Fin num_std)) rolling_sd in
         bindE (col df1 ''BB_middle'') (\<lambda>middle.
           let df2 = set_col df1 ''BB_upper'' (series_op fadd middle band) in
           bindE (col df2 ''BB_middle'') (\<lambda>middle2.
             Inr (set_col df2 ''BB_lower'' (series_op fsub middle2 band))))))"

definition moving_averages_update :: "dataframe \<Rightarrow> error + dataframe" where
  "moving_averages_update df =
     bindE (col df ''close'') (\<lambda>c1.
       let df1 = set_col df ''SMA_50'' (rolling_mean 50 c1) in
       bindE (col df1 ''close'') (\<lambda>c2.
         let df2 = set_col df1 ''SMA_200'' (rolling_mean 200 c2) in
         bindE (col df2 ''close'') (\<lambda>c3.
           let df3 = set_col df2 ''EMA_20'' (ewm_mean (alpha_of_span 20) False 0 c3) in
           bindE (col df3 ''close'') (\<lambda>c4.
             Inr (set_col df3 ''EMA_50'' (ewm_mean (alpha_of_span 50) False 0 c4))))))"

text \<open>
  \<open>crossed_up a b\<close> is the mask \<open>(a > b) & (a.shift(1) <= b.shift(1))\<close>, and
  \<open>crossed_down a b\<close> the mask \<open>(a < b) & (a.shift(1) >= b.shift(1))\<close>.
\<close>

definition crossed_up :: "fval list \<Rightarrow> fval list \<Rightarrow> bool list" where
  "crossed_up a b = mask_and (series_op fgt a b) (series_op fle (shift1 a) (shift1 b))"

definition crossed_down :: "fval list \<Rightarrow> fval list \<Rightarrow> bool list" where
  "crossed_down a b = mask_and (series_op flt a b) (series_op fge (shift1 a) (shift1 b))"

text \<open>\<open>df.loc[mask, c] = v\<close>; KeyError cannot arise where the source uses it, since the
  column was assigned before.\<close>

definition loc_set :: "dataframe \<Rightarrow> bool list \<Rightarrow> string \<Rightarrow> fval \<Rightarrow> error + dataframe" where
  "loc_set df msk c v = bindE (col df c) (\<lambda>xs. Inr (set_col df c (loc_assign msk v xs)))"

definition signals_rsi :: "dataframe \<Rightarrow> error + dataframe" where
  "signals_rsi df =
     (if has_col df ''RSI'' then
        bindE (col df ''RSI'') (\<lambda>rsi.
        bindE (loc_set df (map (\<lambda>x. flt x (Fin 30)) rsi) ''signal'' (Fin 1)) (\<lambda>df1.
        bindE (col df1 ''RSI'') (\<lambda>rsi1.
          loc_set df1 (map (\<lambda>x. fgt x (Fin 70)) rsi1) ''signal'' (Fin (- 1)))))
      else Inr df)"

definition signals_macd :: "dataframe \<Rightarrow> error + dataframe" where
  "signals_macd df =
     (if has_col df ''MACD'' \<and> has_col df ''MACD_signal'' then
        let df1 = set_col_scalar df ''macd_crossover'' (Fin 0) in
        bindE (col df1 ''MACD'') (\<lambda>m.
        bindE (col df1 ''MACD_signal'') (\<lambda>s.
        bindE (loc_set df1 (crossed_up m s) ''macd_crossover'' (Fin 1)) (\<lambda>df2.
        bindE (col df2 ''MACD'') (\<lambda>m2.
        bindE (col df2 ''MACD_signal'') (\<lambda>s2.
        bindE (loc_set df2 (crossed_down m2 s2) ''macd_crossover'' (Fin (- 1))) (\<lambda>df3.
        bindE (col df3 ''macd_crossover'') (\<lambda>x1.
        bindE (loc_set df3 (map (\<lambda>x. x = Fin 1) x1) ''signal'' (Fin 1)) (\<lambda>df4.
        bindE (col df4 ''macd_crossover'') (\<lambda>x2.
          loc_set df4 (map (\<lambda>x. x = Fin (- 1)) x2) ''signal'' (Fin (- 1)))))))))))
      else Inr df)"

definition signals_bollinger :: "dataframe \<Rightarrow> error + dataframe" where
  "signals_bollinger df =
     (if has_col df ''BB_upper'' \<and> has_col df ''BB_lower'' then
        bindE (col df ''close'') (\<lambda>c.
        bindE (col df ''BB_lower'') (\<lambda>lower.
        bindE (loc_set df (series_op flt c (map (\<lambda>x. fmul x (Fin (101 / 100))) lower))
                 ''signal'' (Fin 1)) (\<lambda>df1.
        bindE (col df1 ''close'') (\<lambda>c1.
        bindE (col df1 ''BB_upper'') (\<lambda>upper.
          loc_set df1 (series_op fgt c1 (map (\<lambda>x. fmul x (Fin (99 / 100))) upper))
            ''signal'' (Fin (- 1)))))))
      else Inr df)"

definition signals_sma :: "dataframe \<Rightarrow> error + dataframe" where
  "signals_sma df =
     (if has_col df ''SMA_50'' \<and> has_col df ''SMA_200'' then
        bindE (col df ''SMA_50'') (\<lambda>a.
        bindE (col df ''SMA_200'') (\<lambda>b.
        let golden_cross = crossed_up a b in
        bindE (loc_set df golden_cross ''signal'' (Fin 1)) (\<lambda>df1.
        bindE (col df1 ''SMA_50'') (\<lambda>a1.
        bindE (col df1 ''SMA_200'') (\<lambda>b1.
        let death_cross = crossed_down a1 b1 in
          loc_set df1 death_cross ''signal'' (Fin (- 1)))))))
      else Inr df)"

definition signals_update :: "dataframe \<Rightarrow> error + dataframe" where
  "signals_update df =
     bindE (signals_rsi (set_col_scalar df ''signal'' (Fin 0))) (\<lambda>df1.
     bindE (signals_macd df1) (\<lambda>df2.
     bindE (signals_bollinger df2) signals_sma))"

subsection \<open>The object store\<close>

text \<open>
  Frames are objects: a variable holds a reference, and an assignment to a column
  changes the object for every holder of the reference. The store maps references to
  frames; references below \<open>next_free\<close> are the live ones.
\<close>

record store =
  objs :: "nat \<Rightarrow> dataframe"
  next_free :: nat

text \<open>Runs an update on the object behind \<open>a\<close>, in place, and returns \<open>a\<close>:
  the source's \<open>df[...] = ...; return df\<close>.\<close>

definition in_place :: "(dataframe \<Rightarrow> error + dataframe) \<Rightarrow> store \<Rightarrow> nat \<Rightarrow> store \<times> (error + nat)" where
  "in_place f h a =
     (case f (objs h a) of
        Inl e \<Rightarrow> (h, Inl e)
      | Inr df' \<Rightarrow> (h\<lparr>objs := (objs h)(a := df')\<rparr>, Inr a))"

text \<open>\<open>df.copy()\<close>: a new object with the same index and columns.\<close>

definition copy_df :: "store \<Rightarrow> nat \<Rightarrow> store \<times> nat" where
  "copy_df h a =
     (h\<lparr>objs := (objs h)(next_free h := objs h a), next_free := Suc (next_free h)\<rparr>,
      next_free h)"

definition calculate_rsi :: "store \<Rightarrow> nat \<Rightarrow> store \<times> (error + nat)" where
  "calculate_rsi = in_place (rsi_update 14)"

definition calculate_macd :: "store \<Rightarrow> nat \<Rightarrow> store \<times> (error + nat)" where
  "calculate_macd = in_place (macd_update 12 26 9)"

definition calculate_bollinger_bands :: "store \<Rightarrow> nat \<Rightarrow> store \<times> (error + nat)" where
  "calculate_bollinger_bands = in_place (bollinger_update 20 2)"

definition calculate_moving_averages :: "store \<Rightarrow> nat \<Rightarrow> store \<times> (error + nat)" where
  "calculate_moving_averages = in_place moving_averages_update"

definition calculate_signals :: "store \<Rightarrow> nat \<Rightarrow> store \<times> (error + nat)" where
  "calculate_signals = in_place signals_update"

text \<open>Sequencing of calls that may raise: an exception ends the run, the store stays
  as the calls so far left it.\<close>

definition then_call :: "store \<times> (error + nat) \<Rightarrow> (store \<Rightarrow> nat \<Rightarrow> store \<times> (error + nat)) \<Rightarrow> store \<times> (error + nat)" where
  "then_call r f = (case r of (h, Inl e) \<Rightarrow> (h, Inl e) | (h, Inr a) \<Rightarrow> f h a)"

definition calculate_technical_indicators :: "store \<Rightarrow> nat \<Rightarrow> store \<times> (error + nat)" where
  "calculate_technical_indicators h df =
     (let (h0, df_copy) = copy_df h df in
      then_call (then_call (then_call (then_call
        (calculate_rsi h0 df_copy)
        calculate_macd)
        calculate_bollinger_bands)
        calculate_moving_averages)
        calculate_signals)"

text \<open>The frame a caller gets back from \<open>calculate_technical_indicators(data)\<close>, for
  the callers that only read it.\<close>

definition indicators_of :: "dataframe \<Rightarrow> error + dataframe" where
  "indicators_of data =
     (case calculate_technical_indicators \<lparr>objs = (\<lambda>_. data), next_free = 1\<rparr> 0 of
        (h, Inl e) \<Rightarrow> Inl e
      | (h, Inr a) \<Rightarrow> Inr (objs h a))"


section \<open>Scoring, consolidation and ranking (crypto_analysis.py)\<close>

text \<open>\<open>df[c1].iloc[i] REL df[c2].iloc[j]\<close>, evaluated left to right.\<close>

definition cell_cmp ::
  "(fval \<Rightarrow> fval \<Rightarrow> bool) \<Rightarrow> dataframe \<Rightarrow> string \<Rightarrow> int \<Rightarrow> string \<Rightarrow> int \<Rightarrow> error + bool" where
  "cell_cmp rel df c1 i c2 j =
     bindE (col df c1) (\<lambda>a. bindE (iloc a i) (\<lambda>x.
     bindE (col df c2) (\<lambda>b. bindE (iloc b j) (\<lambda>y. Inr (rel x y)))))"

text \<open>Python's \<open>A and B\<close>: \<open>B\<close> is evaluated only when \<open>A\<close> is true.\<close>

definition and_also :: "error + bool \<Rightarrow> error + bool \<Rightarrow> error + bool" where
  "and_also p q = bindE p (\<lambda>b. if b then q else Inr False)"

definition pts :: "bool \<Rightarrow> real \<Rightarrow> real" where
  "pts b p = (if b then p else 0)"

subsection \<open>calculate_crypto_score\<close>

text \<open>\<open>(df['close'].iloc[-1] / df['close'].iloc[0] - 1) * 100\<close>: three double-precision
  operations.\<close>

definition price_change_of :: "dataframe \<Rightarrow> error + fval" where
  "price_change_of df =
     bindE (col df ''close'') (\<lambda>c. bindE (iloc c (- 1)) (\<lambda>last_close.
     bindE (col df ''close'') (\<lambda>c'. bindE (iloc c' 0) (\<lambda>first_close.
       Inr (fl_mul (fl_sub (fl_div last_close first_close) (Fin 1)) (Fin 100))))))"

definition momentum_points :: "fval \<Rightarrow> real" where
  "momentum_points price_change =
     (if fgt price_change (Fin 10) then 2
      else if fgt price_change (Fin 5) then 1
      else if fgt price_change (Fin 0) then 1 / 2
      else 0)"

definition score_momentum :: "dataframe \<Rightarrow> error + real" where
  "score_momentum df = bindE (price_change_of df) (\<lambda>pc. Inr (momentum_points pc))"

definition rsi_points :: "fval \<Rightarrow> real" where
  "rsi_points rsi =
     (if fle (Fin 40) rsi \<and> fle rsi (Fin 60) then 1 / 2
      else if fle (Fin 30) rsi \<and> flt rsi (Fin 40) then 1
      else if flt rsi (Fin 30) then 3 / 2
      else 0)"

definition rsi_gate :: "dataframe \<Rightarrow> string list \<Rightarrow> bool" where
  "rsi_gate df sel = (''RSI'' \<in> set sel \<and> has_col df ''RSI'')"

definition macd_gate :: "dataframe \<Rightarrow> string list \<Rightarrow> bool" where
  "macd_gate df sel = (''MACD'' \<in> set sel \<and> has_col df ''MACD'' \<and> has_col df ''MACD_signal'')"

definition bollinger_gate :: "dataframe \<Rightarrow> string list \<Rightarrow> bool" where
  "bollinger_gate df sel =
     (''Bollinger Bands'' \<in> set sel \<and> has_col df ''BB_upper'' \<and> has_col df ''BB_middle''
        \<and> has_col df ''BB_lower'')"

definition ema_gate :: "dataframe \<Rightarrow> string list \<Rightarrow> bool" where
  "ema_gate df sel = (''EMA'' \<in> set sel \<and> has_col df ''EMA_20'' \<and> has_col df ''EMA_50'')"

definition sma_gate :: "dataframe \<Rightarrow> string list \<Rightarrow> bool" where
  "sma_gate df sel = (''SMA'' \<in> set sel \<and> has_col df ''SMA_50'' \<and> has_col df ''SMA_200'')"

definition last_rsi :: "dataframe \<Rightarrow> error + fval" where
  "last_rsi df = bindE (col df ''RSI'') (\<lambda>r. iloc r (- 1))"

definition score_rsi :: "dataframe \<Rightarrow> string list \<Rightarrow> error + real" where
  "score_rsi df sel =
     (if rsi_gate df sel then bindE (last_rsi df) (\<lambda>rsi. Inr (rsi_points rsi)) else Inr 0)"

text \<open>The conditions of the MACD, Bollinger, EMA and SMA clauses, as the source
  writes them.\<close>

definition macd_above :: "dataframe \<Rightarrow> error + bool" where
  "macd_above df = cell_cmp fgt df ''MACD'' (- 1) ''MACD_signal'' (- 1)"

definition macd_hist_rising :: "dataframe \<Rightarrow> error + bool" where
  "macd_hist_rising df = cell_cmp fgt df ''MACD_hist'' (- 1) ''MACD_hist'' (- 2)"

definition macd_crossed :: "dataframe \<Rightarrow> error + bool" where
  "macd_crossed df =
     and_also (cell_cmp fgt df ''MACD'' (- 1) ''MACD_signal'' (- 1))
              (cell_cmp fle df ''MACD'' (- 2) ''MACD_signal'' (- 2))"

definition near_lower_band :: "dataframe \<Rightarrow> error + bool" where
  "near_lower_band df =
     cell_cmp (\<lambda>x y. flt x (fmul y (Fin (105 / 100)))) df ''close'' (- 1) ''BB_lower'' (- 1)"

definition band_bounce :: "dataframe \<Rightarrow> error + bool" where
  "band_bounce df =
     and_also (cell_cmp fgt df ''close'' (- 1) ''close'' (- 2))
              (cell_cmp flt df ''close'' (- 2) ''BB_lower'' (- 2))"

definition ema_above :: "dataframe \<Rightarrow> error + bool" where
  "ema_above df = cell_cmp fgt df ''EMA_20'' (- 1) ''EMA_50'' (- 1)"

definition ema_crossed :: "dataframe \<Rightarrow> error + bool" where
  "ema_crossed df =
     and_also (cell_cmp fgt df ''EMA_20'' (- 1) ''EMA_50'' (- 1))
              (cell_cmp fle df ''EMA_20'' (- 2) ''EMA_50'' (- 2))"

definition price_above_smas :: "dataframe \<Rightarrow> error + bool" where
  "price_above_smas df =
     and_also (cell_cmp fgt df ''close'' (- 1) ''SMA_50'' (- 1))
              (cell_cmp fgt df ''close'' (- 1) ''SMA_200'' (- 1))"

definition sma_above :: "dataframe \<Rightarrow> error + bool" where
  "sma_above df = cell_cmp fgt df ''SMA_50'' (- 1) ''SMA_200'' (- 1)"

definition sma_golden :: "dataframe \<Rightarrow> error + bool" where
  "sma_golden df =
     and_also (cell_cmp fgt df ''SMA_50'' (- 1) ''SMA_200'' (- 1))
              (cell_cmp fle df ''SMA_50'' (- 20) ''SMA_200'' (- 20))"

definition score_macd :: "dataframe \<Rightarrow> string list \<Rightarrow> error + real" where
  "score_macd df sel =
     (if macd_gate df sel then
        bindE (macd_above df) (\<lambda>c1.
        bindE (macd_hist_rising df) (\<lambda>c2.
        bindE (macd_crossed df) (\<lambda>c3.
          Inr (pts c1 1 + pts c2 (1 / 2) + pts c3 (3 / 2)))))
      else Inr 0)"

definition score_bollinger :: "dataframe \<Rightarrow> string list \<Rightarrow> error + real" where
  "score_bollinger df sel =
     (if bollinger_gate df sel then
        bindE (near_lower_band df) (\<lambda>c1.
        bindE (band_bounce df) (\<lambda>c2.
          Inr (pts c1 1 + pts c2 (3 / 2))))
      else Inr 0)"

definition score_ema :: "dataframe \<Rightarrow> string list \<Rightarrow> error + real" where
  "score_ema df sel =
     (if ema_gate df sel then
        bindE (ema_above df) (\<lambda>c1.
        bindE (ema_crossed df) (\<lambda>c2.
          Inr (pts c1 1 + pts c2 (3 / 2))))
      else Inr 0)"

definition score_sma :: "dataframe \<Rightarrow> string list \<Rightarrow> error + real" where
  "score_sma df sel =
     (if sma_gate df sel then
        bindE (price_above_smas df) (\<lambda>c1.
        bindE (sma_above df) (\<lambda>c2.
        bindE (sma_golden df) (\<lambda>c3.
          Inr (pts c1 1 + pts c2 1 + pts c3 2))))
      else Inr 0)"

text \<open>The volume clause sits in a \<open>try\<close> whose handler catches IndexError (and two
  exceptions this code cannot raise) and adds nothing; a KeyError passes through.\<close>

definition volume_points :: "fval \<Rightarrow> real" where
  "volume_points volume_change =
     (if fgt volume_change (Fin (3 / 2)) then 1
      else if fgt volume_change (Fin (12 / 10)) then 1 / 2
      else 0)"

definition volume_mean_of :: "dataframe \<Rightarrow> error + fval" where
  "volume_mean_of df = bindE (col df ''volume'') (\<lambda>v. iloc (rolling_mean 7 v) (- 1))"

definition volume_change_of :: "dataframe \<Rightarrow> fval \<Rightarrow> error + fval" where
  "volume_change_of df volume_mean =
     bindE (col df ''volume'') (\<lambda>v. bindE (iloc v (- 1)) (\<lambda>x. Inr (fdiv x volume_mean)))"

definition volume_try :: "dataframe \<Rightarrow> error + real" where
  "volume_try df =
     bindE (volume_mean_of df) (\<lambda>volume_mean.
       if fgt volume_mean (Fin 0)
       then bindE (volume_change_of df volume_mean) (\<lambda>vc. Inr (volume_points vc))
       else Inr 0)"

definition score_volume :: "dataframe \<Rightarrow> error + real" where
  "score_volume df =
     (case volume_try df of
        Inl IndexError \<Rightarrow> Inr 0
      | Inl KeyError \<Rightarrow> Inl KeyError
      | Inr p \<Rightarrow> Inr p)"

definition calculate_crypto_score :: "dataframe \<Rightarrow> string list \<Rightarrow> error + real" where
  "calculate_crypto_score df selected_indicators =
     bindE (score_momentum df) (\<lambda>p0.
     bindE (score_rsi df selected_indicators) (\<lambda>p1.
     bindE (score_macd df selected_indicators) (\<lambda>p2.
     bindE (score_bollinger df selected_indicators) (\<lambda>p3.
     bindE (score_ema df selected_indicators) (\<lambda>p4.
     bindE (score_sma df selected_indicators) (\<lambda>p5.
     bindE (score_volume df) (\<lambda>p6.
       Inr (0 + p0 + p1 + p2 + p3 + p4 + p5 + p6))))))))"


text \<open>
  The bonus clauses of the scorer, one per \<open>score +=\<close> of the source, with the points
  each adds and the condition under which the source reaches the addition (for an
  \<open>elif\<close>: the earlier branches false).
\<close>

datatype clause =
    Momentum_gt10 | Momentum_gt5 | Momentum_gt0
  | Rsi_40_60 | Rsi_30_40 | Rsi_lt30
  | Macd_above | Macd_hist_rising | Macd_crossed
  | Near_lower_band | Band_bounce
  | Ema_above | Ema_crossed
  | Price_above_smas | Sma_above | Sma_golden
  | Volume_gt15 | Volume_gt12

fun clause_points :: "clause \<Rightarrow> real" where
  "clause_points Momentum_gt10 = 2"
| "clause_points Momentum_gt5 = 1"
| "clause_points Momentum_gt0 = 1 / 2"
| "clause_points Rsi_40_60 = 1 / 2"
| "clause_points Rsi_30_40 = 1"
| "clause_points Rsi_lt30 = 3 / 2"
| "clause_points Macd_above = 1"
| "clause_points Macd_hist_rising = 1 / 2"
| "clause_points Macd_crossed = 3 / 2"
| "clause_points Near_lower_band = 1"
| "clause_points Band_bounce = 3 / 2"
| "clause_points Ema_above = 1"
| "clause_points Ema_crossed = 3 / 2"
| "clause_points Price_above_smas = 1"
| "clause_points Sma_above = 1"
| "clause_points Sma_golden = 2"
| "clause_points Volume_gt15 = 1"
| "clause_points Volume_gt12 = 1 / 2"

definition on_value :: "error + 'a \<Rightarrow> ('a \<Rightarrow> bool) \<Rightarrow> bool" where
  "on_value m P = (case m of Inl e \<Rightarrow> False | Inr x \<Rightarrow> P x)"

fun holds :: "dataframe \<Rightarrow> string list \<Rightarrow> clause \<Rightarrow> bool" where
  "holds df sel Momentum_gt10 = on_value (price_change_of df) (\<lambda>pc. fgt pc (Fin 10))"
| "holds df sel Momentum_gt5 =
     on_value (price_change_of df) (\<lambda>pc. \<not> fgt pc (Fin 10) \<and> fgt pc (Fin 5))"
| "holds df sel Momentum_gt0 =
     on_value (price_change_of df)
       (\<lambda>pc. \<not> fgt pc (Fin 10) \<and> \<not> fgt pc (Fin 5) \<and> fgt pc (Fin 0))"
| "holds df sel Rsi_40_60 =
     (rsi_gate df sel \<and> on_value (last_rsi df) (\<lambda>rsi. fle (Fin 40) rsi \<and> fle rsi (Fin 60)))"
| "holds df sel Rsi_30_40 =
     (rsi_gate df sel \<and>
      on_value (last_rsi df)
        (\<lambda>rsi. \<not> (fle (Fin 40) rsi \<and> fle rsi (Fin 60)) \<and> fle (Fin 30) rsi \<and> flt rsi (Fin 40)))"
| "holds df sel Rsi_lt30 =
     (rsi_gate df sel \<and>
      on_value (last_rsi df)
        (\<lambda>rsi. \<not> (fle (Fin 40) rsi \<and> fle rsi (Fin 60)) \<and> \<not> (fle (Fin 30) rsi \<and> flt rsi (Fin 40))
                \<and> flt rsi (Fin 30)))"
| "holds df sel Macd_above = (macd_gate df sel \<and> on_value (macd_above df) (\<lambda>b. b))"
| "holds df sel Macd_hist_rising = (macd_gate df sel \<and> on_value (macd_hist_rising df) (\<lambda>b. b))"
| "holds df sel Macd_crossed = (macd_gate df sel \<and> on_value (macd_crossed df) (\<lambda>b. b))"
| "holds df sel Near_lower_band = (bollinger_gate df sel \<and> on_value (near_lower_band df) (\<lambda>b. b))"
| "holds df sel Band_bounce = (bollinger_gate df sel \<and> on_value (band_bounce df) (\<lambda>b. b))"
| "holds df sel Ema_above = (ema_gate df sel \<and> on_value (ema_above df) (\<lambda>b. b))"
| "holds df sel Ema_crossed = (ema_gate df sel \<and> on_value (ema_crossed df) (\<lambda>b. b))"
| "holds df sel Price_above_smas = (sma_gate df sel \<and> on_value (price_above_smas df) (\<lambda>b. b))"
| "holds df sel Sma_above = (sma_gate df sel \<and> on_value (sma_above df) (\<lambda>b. b))"
| "holds df sel Sma_golden = (sma_gate df sel \<and> on_value (sma_golden df) (\<lambda>b. b))"
| "holds df sel Volume_gt15 =
     on_value (volume_mean_of df) (\<lambda>vm. fgt vm (Fin 0) \<and>
       on_value (volume_change_of df vm) (\<lambda>vc. fgt vc (Fin (3 / 2))))"
| "holds df sel Volume_gt12 =
     on_value (volume_mean_of df) (\<lambda>vm. fgt vm (Fin 0) \<and>
       on_value (volume_change_of df vm)
         (\<lambda>vc. \<not> fgt vc (Fin (3 / 2)) \<and> fgt vc (Fin (12 / 10))))"

definition all_clauses :: "clause list" where
  "all_clauses =
     [Momentum_gt10, Momentum_gt5, Momentum_gt0, Rsi_40_60, Rsi_30_40, Rsi_lt30,
      Macd_above, Macd_hist_rising, Macd_crossed, Near_lower_band, Band_bounce,
      Ema_above, Ema_crossed, Price_above_smas, Sma_above, Sma_golden,
      Volume_gt15, Volume_gt12]"

definition clause_total :: "dataframe \<Rightarrow> string list \<Rightarrow> real" where
  "clause_total df sel = sum_list (map (\<lambda>c. pts (holds df sel c) (clause_points c)) all_clauses)"

text \<open>
  What the specification describes for the momentum clause, to compare with
  \<open>score_momentum\<close>: the return of the close over the window of the last 7 bars.
\<close>

definition spec_window7_return :: "dataframe \<Rightarrow> error + fval" where
  "spec_window7_return df =
     bindE (col df ''close'') (\<lambda>c. bindE (iloc c (- 1)) (\<lambda>last_close.
     bindE (iloc c (- 7)) (\<lambda>first_close.
       Inr (fl_mul (fl_sub (fl_div last_close first_close) (Fin 1)) (Fin 100)))))"

definition spec_score_momentum :: "dataframe \<Rightarrow> error + real" where
  "spec_score_momentum df = bindE (spec_window7_return df) (\<lambda>r. Inr (momentum_points r))"

subsection \<open>analyze_crypto\<close>

text \<open>
  The result of \<open>analyze_crypto\<close> is the tuple \<open>(signal, reason, details, advice)\<close>.
  The three signal words, the two strength words and the three fixed advice texts
  are enumerations here; the reason, an f-string, is kept as its template with the
  values it formats; a detail is a formatted cell or a label (labels are written
  without their accents).
\<close>

datatype signal_word = Achat | Vente | Neutre

datatype strength = Fort | Modere

datatype reason =
    Signal_achat strength real real
  | Signal_vente strength real real
  | Signaux_mixtes real real

datatype advice_text = Conseil_achat | Conseil_vente | Conseil_neutre

datatype detail = Formatted fval | Label string

text \<open>A Python dict keeps insertion order; assigning to an existing key keeps its place.\<close>

fun dict_set :: "('k \<times> 'v) list \<Rightarrow> 'k \<Rightarrow> 'v \<Rightarrow> ('k \<times> 'v) list" where
  "dict_set [] k v = [(k, v)]"
| "dict_set ((k', v') # kvs) k v =
     (if k' = k then (k, v) # kvs else (k', v') # dict_set kvs k v)"

record tally =
  buy_signals :: real
  sell_signals :: real
  neutral_signals :: real
  details :: "(string \<times> detail) list"

definition put_detail :: "string \<Rightarrow> detail \<Rightarrow> tally \<Rightarrow> tally" where
  "put_detail k d t = t\<lparr>details := dict_set (details t) k d\<rparr>"

definition vote_buy :: "real \<Rightarrow> string \<Rightarrow> string \<Rightarrow> tally \<Rightarrow> tally" where
  "vote_buy w k lbl t = put_detail k (Label lbl) (t\<lparr>buy_signals := buy_signals t + w\<rparr>)"

definition vote_sell :: "real \<Rightarrow> string \<Rightarrow> string \<Rightarrow> tally \<Rightarrow> tally" where
  "vote_sell w k lbl t = put_detail k (Label lbl) (t\<lparr>sell_signals := sell_signals t + w\<rparr>)"

definition vote_neutral :: "real \<Rightarrow> string \<Rightarrow> string \<Rightarrow> tally \<Rightarrow> tally" where
  "vote_neutral w k lbl t = put_detail k (Label lbl) (t\<lparr>neutral_signals := neutral_signals t + w\<rparr>)"

definition cell_at :: "dataframe \<Rightarrow> string \<Rightarrow> int \<Rightarrow> error + fval" where
  "cell_at df c i = bindE (col df c) (\<lambda>xs. iloc xs i)"

definition analyze_rsi :: "dataframe \<Rightarrow> string list \<Rightarrow> tally \<Rightarrow> error + tally" where
  "analyze_rsi df sel t =
     (if rsi_gate df sel then
        bindE (cell_at df ''RSI'' (- 1)) (\<lambda>rsi.
          let t1 = put_detail ''RSI'' (Formatted rsi) t in
          Inr (if flt rsi (Fin 30) then vote_buy 1 ''RSI_signal'' ''Achat (survente)'' t1
               else if fgt rsi (Fin 70) then vote_sell 1 ''RSI_signal'' ''Vente (surachat)'' t1
               else vote_neutral 1 ''RSI_signal'' ''Neutre'' t1))
      else Inr t)"

definition analyze_macd :: "dataframe \<Rightarrow> string list \<Rightarrow> tally \<Rightarrow> error + tally" where
  "analyze_macd df sel t =
     (if macd_gate df sel then
        bindE (cell_at df ''MACD'' (- 1)) (\<lambda>macd.
        bindE (cell_at df ''MACD_signal'' (- 1)) (\<lambda>signal_line.
        bindE (cell_at df ''MACD_hist'' (- 1)) (\<lambda>hist.
          let t1 = put_detail ''MACD_hist'' (Formatted hist)
                     (put_detail ''MACD_signal'' (Formatted signal_line)
                       (put_detail ''MACD'' (Formatted macd) t)) in
          bindE (and_also (cell_cmp fgt df ''MACD'' (- 1) ''MACD_signal'' (- 1))
                          (cell_cmp fle df ''MACD'' (- 2) ''MACD_signal'' (- 2))) (\<lambda>up.
          if up then Inr (vote_buy 1 ''MACD_crossover'' ''Achat (croisement haussier)'' t1)
          else
          bindE (and_also (cell_cmp flt df ''MACD'' (- 1) ''MACD_signal'' (- 1))
                          (cell_cmp fge df ''MACD'' (- 2) ''MACD_signal'' (- 2))) (\<lambda>down.
          if down then Inr (vote_sell 1 ''MACD_crossover'' ''Vente (croisement baissier)'' t1)
          else Inr
            (if fgt macd signal_line
               then vote_buy (1 / 2) ''MACD_position'' ''Positif (MACD > Signal)'' t1
             else if flt macd signal_line
               then vote_sell (1 / 2) ''MACD_position'' ''Negatif (MACD < Signal)'' t1
             else vote_neutral 1 ''MACD_position'' ''Neutre'' t1))))))
      else Inr t)"

definition analyze_bollinger :: "dataframe \<Rightarrow> string list \<Rightarrow> tally \<Rightarrow> error + tally" where
  "analyze_bollinger df sel t =
     (if bollinger_gate df sel then
        bindE (cell_at df ''close'' (- 1)) (\<lambda>price.
        bindE (cell_at df ''BB_upper'' (- 1)) (\<lambda>upper.
        bindE (cell_at df ''BB_lower'' (- 1)) (\<lambda>lower.
          let t1 = put_detail ''BB_lower'' (Formatted lower)
                     (put_detail ''BB_upper'' (Formatted upper)
                       (put_detail ''Prix_actuel'' (Formatted price) t)) in
          Inr (if flt price (fmul lower (Fin (105 / 100)))
                 then vote_buy 1 ''Bollinger'' ''Achat (proche de la bande inferieure)'' t1
               else if fgt price (fmul upper (Fin (95 / 100)))
                 then vote_sell 1 ''Bollinger'' ''Vente (proche de la bande superieure)'' t1
               else vote_neutral 1 ''Bollinger'' ''Neutre (entre les bandes)'' t1))))
      else Inr t)"

definition analyze_sma :: "dataframe \<Rightarrow> string list \<Rightarrow> tally \<Rightarrow> error + tally" where
  "analyze_sma df sel t =
     (if sma_gate df sel then
        bindE (cell_at df ''close'' (- 1)) (\<lambda>price.
        bindE (cell_at df ''SMA_50'' (- 1)) (\<lambda>sma_50.
        bindE (cell_at df ''SMA_200'' (- 1)) (\<lambda>sma_200.
          let t1 = put_detail ''SMA_200'' (Formatted sma_200)
                     (put_detail ''SMA_50'' (Formatted sma_50) t) in
          bindE (and_also (Inr (fgt sma_50 sma_200))
                          (cell_cmp fle df ''SMA_50'' (- 20) ''SMA_200'' (- 20))) (\<lambda>golden.
          if golden
            then Inr (vote_buy 2 ''SMA_crossover'' ''Achat fort (Golden Cross recent)'' t1)
          else
          bindE (and_also (Inr (flt sma_50 sma_200))
                          (cell_cmp fge df ''SMA_50'' (- 20) ''SMA_200'' (- 20))) (\<lambda>death.
          if death
            then Inr (vote_sell 2 ''SMA_crossover'' ''Vente forte (Death Cross recent)'' t1)
          else Inr
            (if fgt sma_50 sma_200
               then vote_buy (1 / 2) ''SMA_position'' ''Positif (SMA 50 > SMA 200)'' t1
             else if flt sma_50 sma_200
               then vote_sell (1 / 2) ''SMA_position'' ''Negatif (SMA 50 < SMA 200)'' t1
             else vote_neutral (1 / 2) ''SMA_position'' ''Neutre'' t1))))))
      else Inr t)"

definition analyze_ema :: "dataframe \<Rightarrow> string list \<Rightarrow> tally \<Rightarrow> error + tally" where
  "analyze_ema df sel t =
     (if ema_gate df sel then
        bindE (cell_at df ''EMA_20'' (- 1)) (\<lambda>ema_20.
        bindE (cell_at df ''EMA_50'' (- 1)) (\<lambda>ema_50.
          let t1 = put_detail ''EMA_50'' (Formatted ema_50)
                     (put_detail ''EMA_20'' (Formatted ema_20) t) in
          bindE (and_also (Inr (fgt ema_20 ema_50))
                          (cell_cmp fle df ''EMA_20'' (- 2) ''EMA_50'' (- 2))) (\<lambda>up.
          if up then Inr (vote_buy 1 ''EMA_crossover'' ''Achat (croisement haussier)'' t1)
          else
          bindE (and_also (Inr (flt ema_20 ema_50))
                          (cell_cmp fge df ''EMA_20'' (- 2) ''EMA_50'' (- 2))) (\<lambda>down.
          if down then Inr (vote_sell 1 ''EMA_crossover'' ''Vente (croisement baissier)'' t1)
          else Inr
            (if fgt ema_20 ema_50
               then vote_buy (1 / 2) ''EMA_position'' ''Positif (EMA 20 > EMA 50)'' t1
             else if flt ema_20 ema_50
               then vote_sell (1 / 2) ''EMA_position'' ''Negatif (EMA 20 < EMA 50)'' t1
             else vote_neutral (1 / 2) ''EMA_position'' ''Neutre'' t1)))))
      else Inr t)"

text \<open>The votes after the five indicator blocks, in the source's order.\<close>

definition count_votes :: "dataframe \<Rightarrow> string list \<Rightarrow> error + tally" where
  "count_votes df sel =
     bindE (analyze_rsi df sel
              \<lparr>buy_signals = 0, sell_signals = 0, neutral_signals = 0, details = []\<rparr>) (\<lambda>t1.
     bindE (analyze_macd df sel t1) (\<lambda>t2.
     bindE (analyze_bollinger df sel t2) (\<lambda>t3.
     bindE (analyze_sma df sel t3) (\<lambda>t4.
       analyze_ema df sel t4))))"

record analysis =
  signal :: signal_word
  reason :: reason
  detail_map :: "(string \<times> detail) list"
  advice :: advice_text

definition consolidate :: "tally \<Rightarrow> analysis" where
  "consolidate t =
     (let b = buy_signals t; s = sell_signals t in
      if b > s + 1 / 2 then
        \<lparr>signal = Achat,
         reason = Signal_achat (if b \<ge> 2 * s then Fort else Modere) b s,
         detail_map = details t, advice = Conseil_achat\<rparr>
      else if s > b + 1 / 2 then
        \<lparr>signal = Vente,
         reason = Signal_vente (if s \<ge> 2 * b then Fort else Modere) s b,
         detail_map = details t, advice = Conseil_vente\<rparr>
      else
        \<lparr>signal = Neutre, reason = Signaux_mixtes b s,
         detail_map = details t, advice = Conseil_neutre\<rparr>)"

definition analyze_crypto :: "dataframe \<Rightarrow> string list \<Rightarrow> error + analysis" where
  "analyze_crypto df selected_indicators =
     bindE (count_votes df selected_indicators) (\<lambda>t. Inr (consolidate t))"

fun strength_of :: "reason \<Rightarrow> strength option" where
  "strength_of (Signal_achat st b s) = Some st"
| "strength_of (Signal_vente st s b) = Some st"
| "strength_of (Signaux_mixtes b s) = None"

subsection \<open>identify_promising_cryptocurrencies\<close>

text \<open>\<open>sorted(xs, key=k, reverse=True)\<close>: CPython reverses the list, sorts it with
  its stable sort and reverses the result, which keeps equal keys in their input order.\<close>

definition sorted_reverse :: "('a \<Rightarrow> real) \<Rightarrow> 'a list \<Rightarrow> 'a list" where
  "sorted_reverse k xs = rev (sort_key k (rev xs))"

text \<open>\<open>xs[:n]\<close>: a negative \<open>n\<close> counts from the end.\<close>

definition slice_to :: "int \<Rightarrow> 'a list \<Rightarrow> 'a list" where
  "slice_to n xs = (if 0 \<le> n then take (nat n) xs else take (nat (int (length xs) + n)) xs)"

fun collect_scores ::
  "(string \<times> dataframe) list \<Rightarrow> string list \<Rightarrow> (string \<times> real) list \<Rightarrow> error + (string \<times> real) list" where
  "collect_scores [] sel scores = Inr scores"
| "collect_scores ((crypto, data) # rest) sel scores =
     (if empty_df data then collect_scores rest sel scores
      else bindE (indicators_of data) (\<lambda>df.
           bindE (calculate_crypto_score df sel) (\<lambda>score.
             collect_scores rest sel (dict_set scores crypto score))))"

definition rank_scores :: "(string \<times> real) list \<Rightarrow> int \<Rightarrow> (string \<times> real) list" where
  "rank_scores scores top_n = slice_to top_n (sorted_reverse snd scores)"

definition identify_promising_cryptocurrencies ::
  "(string \<times> dataframe) list \<Rightarrow> string list \<Rightarrow> int \<Rightarrow> error + (string \<times> real) list" where
  "identify_promising_cryptocurrencies crypto_data_dict selected_indicators top_n =
     bindE (collect_scores crypto_data_dict selected_indicators []) (\<lambda>scores.
       Inr (rank_scores scores top_n))"

subsection \<open>generate_signals\<close>

fun signals_loop ::
  "(string \<times> dataframe) list \<Rightarrow> string list \<Rightarrow> (string \<times> analysis) list \<Rightarrow> error + (string \<times> analysis) list" where
  "signals_loop [] sel signals = Inr signals"
| "signals_loop ((crypto, data) # rest) sel signals =
     (if empty_df data then signals_loop rest sel signals
      else bindE (indicators_of data) (\<lambda>df.
           bindE (analyze_crypto df sel) (\<lambda>r.
             signals_loop rest sel (dict_set signals crypto r))))"

definition generate_signals ::
  "(string \<times> dataframe) list \<Rightarrow> string list \<Rightarrow> error + (string \<times> analysis) list" where
  "generate_signals crypto_data_dict selected_indicators =
     signals_loop crypto_data_dict selected_indicators []"

subsection \<open>The signal column, bar by bar\<close>

text \<open>
  What the assignments of \<open>calculate_signals\<close> amount to at one bar \<open>i\<close>.
  \<open>prev_at xs i\<close> is the cell of \<open>xs.shift(1)\<close> at \<open>i\<close>; \<open>cross_up_at\<close> and
  \<open>cross_down_at\<close> are the two crossover masks at \<open>i\<close>; \<open>signal_at\<close> lists the
  assignments from the last one made to the first: SMA death cross, SMA golden cross,
  close above 0.99 of the upper band, close below 1.01 of the lower band, MACD
  crossing down, MACD crossing up, RSI above 70, RSI below 30, and 0 when none applies.
\<close>

definition prev_at :: "fval list \<Rightarrow> nat \<Rightarrow> fval" where
  "prev_at xs i = (if i = 0 then NaN else xs ! (i - 1))"

definition cross_up_at :: "fval list \<Rightarrow> fval list \<Rightarrow> nat \<Rightarrow> bool" where
  "cross_up_at a b i = (fgt (a ! i) (b ! i) \<and> fle (prev_at a i) (prev_at b i))"

definition cross_down_at :: "fval list \<Rightarrow> fval list \<Rightarrow> nat \<Rightarrow> bool" where
  "cross_down_at a b i = (flt (a ! i) (b ! i) \<and> fge (prev_at a i) (prev_at b i))"

definition signal_at ::
  "fval list \<Rightarrow> fval list \<Rightarrow> fval list \<Rightarrow> fval list \<Rightarrow> fval list \<Rightarrow> fval list \<Rightarrow> fval list \<Rightarrow> fval list \<Rightarrow> nat \<Rightarrow> fval" where
  "signal_at c rsi m s u l a b i =
     (if cross_down_at a b i then Fin (- 1)
      else if cross_up_at a b i then Fin 1
      else if fgt (c ! i) (fmul (u ! i) (Fin (99 / 100))) then Fin (- 1)
      else if flt (c ! i) (fmul (l ! i) (Fin (101 / 100))) then Fin 1
      else if cross_down_at m s i then Fin (- 1)
      else if cross_up_at m s i then Fin 1
      else if fgt (rsi ! i) (Fin 70) then Fin (- 1)
      else if flt (rsi ! i) (Fin 30) then Fin 1
      else Fin 0)"

text \<open>The five updates of \<open>calculate_technical_indicators\<close> in sequence, as one
  function of the frame.\<close>

definition engine_updates :: "dataframe \<Rightarrow> error + dataframe" where
  "engine_updates data =
     bindE (rsi_update 14 data) (\<lambda>d1.
     bindE (macd_update 12 26 9 d1) (\<lambda>d2.
     bindE (bollinger_update 20 2 d2) (\<lambda>d3.
     bindE (moving_averages_update d3) signals_update)))"

text \<open>A cell that is undefined or a non-negative number.\<close>

fun nonneg_or_nan :: "fval \<Rightarrow> bool" where
  "nonneg_or_nan NaN = True"
| "nonneg_or_nan (Fin x) = (0 \<le> x)"
| "nonneg_or_nan _ = False"

text \<open>The columns the engine assigns, and the relation between two frames that differ
  at most in the columns \<open>ks\<close>.\<close>

definition engine_columns :: "string list" where
  "engine_columns =
     [''RSI'', ''MACD'', ''MACD_signal'', ''MACD_hist'', ''BB_middle'', ''BB_upper'',
      ''BB_lower'', ''SMA_50'', ''SMA_200'', ''EMA_20'', ''EMA_50'', ''signal'',
      ''macd_crossover'']"

definition same_but :: "string set \<Rightarrow> dataframe \<Rightarrow> dataframe \<Rightarrow> bool" where
  "same_but ks df df' =
     (index_len df' = index_len df \<and> (\<forall>k. k \<notin> ks \<longrightarrow> columns df' k = columns df k))"

text \<open>
  What the specification describes as a Golden Cross, to compare with the test of
  \<open>analyze_sma\<close>: SMA_50 above SMA_200 at the latest bar and not above it at the bar
  20 positions earlier.
\<close>

definition spec_golden_cross :: "fval list \<Rightarrow> fval list \<Rightarrow> bool" where
  "spec_golden_cross sma_50 sma_200 =
     (let latest = length sma_50 - 1 in
      fgt (sma_50 ! latest) (sma_200 ! latest)
        \<and> fle (sma_50 ! (latest - 20)) (sma_200 ! (latest - 20)))"

subsection \<open>Frames the engine makes\<close>

text \<open>The frame has column \<open>k\<close>, with \<open>n\<close> cells.\<close>

definition has_series :: "dataframe \<Rightarrow> string \<Rightarrow> nat \<Rightarrow> bool" where
  "has_series df k n = (\<exists>xs. columns df k = Some xs \<and> length xs = n)"

text \<open>The computation ends with a value, not an exception.\<close>

definition returns :: "error + 'a \<Rightarrow> bool" where
  "returns m = (\<exists>x. m = Inr x)"

text \<open>A frame as the engine makes it from a price series of \<open>n\<close> bars: every column
  the scorer and the consolidator read has \<open>n\<close> cells, and with fewer than 20 bars
  the last SMA_200 is undefined.\<close>

definition engine_frame :: "dataframe \<Rightarrow> nat \<Rightarrow> bool" where
  "engine_frame df n =
     (list_all (\<lambda>k. has_series df k n)
        [''close'', ''volume'', ''RSI'', ''MACD'', ''MACD_signal'', ''MACD_hist'', ''BB_upper'',
         ''BB_middle'', ''BB_lower'', ''SMA_50'', ''SMA_200'', ''EMA_20'', ''EMA_50'']
      \<and> (n < 20 \<longrightarrow> cell_at df ''SMA_200'' (- 1) = Inr NaN))"

subsection \<open>What a clause of the scorer needs\<close>







section \<open>Concrete inputs\<close>

text \<open>A frame from its row count and its columns.\<close>

definition mk_df :: "nat \<Rightarrow> (string \<times> fval list) list \<Rightarrow> dataframe" where
  "mk_df n cs = \<lparr>index_len = n, columns = map_of cs\<rparr>"

text \<open>
  Two frames of two bars with RSI, Bollinger and EMA columns. In both the RSI is below
  30 (one buy vote) and the close is above 95% of the upper band (one sell vote). In
  the first EMA_20 stays above EMA_50 (half a buy vote), in the second it crosses
  above it at the last bar (one buy vote).
\<close>

definition ex_df_neutral :: dataframe where
  "ex_df_neutral = mk_df 2
     [(''close'', [Fin 100, Fin 100]), (''RSI'', [Fin 20, Fin 20]),
      (''BB_upper'', [Fin 100, Fin 100]), (''BB_middle'', [Fin 75, Fin 75]),
      (''BB_lower'', [Fin 50, Fin 50]),
      (''EMA_20'', [Fin 3, Fin 3]), (''EMA_50'', [Fin 2, Fin 2])]"

definition ex_df_buy :: dataframe where
  "ex_df_buy = mk_df 2
     [(''close'', [Fin 100, Fin 100]), (''RSI'', [Fin 20, Fin 20]),
      (''BB_upper'', [Fin 100, Fin 100]), (''BB_middle'', [Fin 75, Fin 75]),
      (''BB_lower'', [Fin 50, Fin 50]),
      (''EMA_20'', [Fin 1, Fin 3]), (''EMA_50'', [Fin 2, Fin 2])]"

definition ex_sel :: "string list" where
  "ex_sel = [''RSI'', ''Bollinger Bands'', ''EMA'']"

text \<open>
  A dict of four symbols: three frames of two bars, with closes rising by 1%, 20%
  and 1%, and one empty frame.
\<close>

definition ex_dict :: "(string \<times> dataframe) list" where
  "ex_dict =
     [(''AAA'', mk_df 2 [(''close'', [Fin 100, Fin 101]), (''volume'', [Fin 10, Fin 10])]),
      (''NIL'', mk_df 0 [(''close'', []), (''volume'', [])]),
      (''BBB'', mk_df 2 [(''close'', [Fin 100, Fin 120]), (''volume'', [Fin 10, Fin 10])]),
      (''CCC'', mk_df 2 [(''close'', [Fin 200, Fin 202]), (''volume'', [Fin 10, Fin 10])])]"

text \<open>A price series of two bars, the close rising by 1%.\<close>

definition ex_two_bars :: dataframe where
  "ex_two_bars = mk_df 2 [(''close'', [Fin 100, Fin 101]), (''volume'', [Fin 10, Fin 10])]"

text \<open>Nine bars: the first close is 100, every later close is 200; the volume is flat.\<close>

definition ex_nine_bars :: dataframe where
  "ex_nine_bars = mk_df 9
     [(''close'', [Fin 100, Fin 200, Fin 200, Fin 200, Fin 200, Fin 200, Fin 200, Fin 200, Fin 200]),
      (''volume'', [Fin 10, Fin 10, Fin 10, Fin 10, Fin 10, Fin 10, Fin 10, Fin 10, Fin 10])]"

text \<open>
  A frame of four bars with the indicator columns given, and a store that holds it.
  Bar 0 has only an RSI below 30; bar 1 an RSI above 70 and a MACD crossing up; bar 2
  a MACD crossing down and a close within 1% of the lower band; bar 3 that same
  closeness and an SMA death cross.
\<close>

definition ex_signal_frame :: dataframe where
  "ex_signal_frame = mk_df 4
     [(''close'', [Fin 100, Fin 100, Fin 100, Fin 100]),
      (''RSI'', [Fin 20, Fin 80, Fin 50, Fin 50]),
      (''MACD'', [Fin 0, Fin 1, Fin (- 1), Fin (- 1)]),
      (''MACD_signal'', [Fin 0, Fin 0, Fin 0, Fin 0]),
      (''BB_upper'', [Fin 200, Fin 200, Fin 200, Fin 200]),
      (''BB_lower'', [Fin 50, Fin 50, Fin 100, Fin 100]),
      (''SMA_50'', [Fin 5, Fin 5, Fin 5, Fin 4]),
      (''SMA_200'', [Fin 5, Fin 5, Fin 5, Fin 5])]"

definition ex_signal_store :: store where
  "ex_signal_store = \<lparr>objs = (\<lambda>_. ex_signal_frame), next_free = 1\<rparr>"

text \<open>
  Twenty closes with mean 100 and sample standard deviation 2 (the squared deviations
  sum to 76 = 19 * 4), as the only column of a frame in a store.
\<close>

definition ex_band_closes :: "fval list" where
  "ex_band_closes =
     [Fin 106, Fin 94, Fin 101, Fin 101, Fin 99, Fin 99, Fin 100, Fin 100, Fin 100, Fin 100,
      Fin 100, Fin 100, Fin 100, Fin 100, Fin 100, Fin 100, Fin 100, Fin 100, Fin 100, Fin 100]"

definition ex_band_store :: store where
  "ex_band_store = \<lparr>objs = (\<lambda>_. mk_df 20 [(''close'', ex_band_closes)]), next_free = 1\<rparr>"

text \<open>
  Three close series of sixteen bars: strictly rising, flat, and alternating with a
  final rise; and a store that holds a frame for each.
\<close>

definition ex_rising_closes :: "fval list" where
  "ex_rising_closes =
     [Fin 1, Fin 2, Fin 3, Fin 4, Fin 5, Fin 6, Fin 7, Fin 8, Fin 9, Fin 10, Fin 11, Fin 12,
      Fin 13, Fin 14, Fin 15, Fin 16]"

definition ex_mixed_closes :: "fval list" where
  "ex_mixed_closes =
     [Fin 10, Fin 11, Fin 10, Fin 11, Fin 10, Fin 11, Fin 10, Fin 11, Fin 10, Fin 11, Fin 10,
      Fin 11, Fin 10, Fin 11, Fin 10, Fin 12]"

definition ex_flat_closes :: "fval list" where
  "ex_flat_closes =
     [Fin 7, Fin 7, Fin 7, Fin 7, Fin 7, Fin 7, Fin 7, Fin 7, Fin 7, Fin 7, Fin 7, Fin 7,
      Fin 7, Fin 7, Fin 7, Fin 7]"

definition ex_rsi_store :: store where
  "ex_rsi_store =
     \<lparr>objs = (\<lambda>a. if a = 0 then mk_df 16 [(''close'', ex_rising_closes)]
                   else if a = 1 then mk_df 16 [(''close'', ex_flat_closes)]
                   else mk_df 16 [(''close'', ex_mixed_closes)]),
      next_free = 3\<rparr>"

text \<open>
  A price series of 221 bars (bars 0 to 220): the close is 1 up to bar 200 and 2 from
  bar 201 on. Its SMA_50 and SMA_200 are both 1 at bar 200; from bar 201 on SMA_50 is
  above SMA_200.
\<close>

definition ex_cross_closes :: "fval list" where
  "ex_cross_closes = replicate 201 (Fin 1) @ replicate 20 (Fin 2)"

definition ex_cross_frame :: dataframe where
  "ex_cross_frame =
     mk_df 221 [(''close'', ex_cross_closes), (''volume'', replicate 221 (Fin 10))]"

text \<open>
  A frame of twenty bars with the two SMA columns given: SMA_50 is below SMA_200 at
  the first bar, which is the twentieth from the end, and above it afterwards. And
  the tally before any vote.
\<close>

definition ex_golden_frame :: dataframe where
  "ex_golden_frame = mk_df 20
     [(''close'', replicate 20 (Fin 5)),
      (''SMA_50'', Fin 1 # replicate 19 (Fin 3)),
      (''SMA_200'', replicate 20 (Fin 2))]"

definition tally0 :: tally where
  "tally0 = \<lparr>buy_signals = 0, sell_signals = 0, neutral_signals = 0, details = []\<rparr>"

text \<open>Two bars with the close rising from 100 to 110, and from 100 to 105.\<close>

definition ex_rise_10 :: dataframe where
  "ex_rise_10 = mk_df 2 [(''close'', [Fin 100, Fin 110]), (''volume'', [Fin 10, Fin 10])]"

definition ex_rise_5 :: dataframe where
  "ex_rise_5 = mk_df 2 [(''close'', [Fin 100, Fin 105]), (''volume'', [Fin 10, Fin 10])]"



section \<open>Properties\<close>

lemma bindE_simps [simp]: "bindE (Inr x) f = f x" "bindE (Inl e) f = Inl e"
  by (simp_all add: bindE_def)

lemmas eval_defs = mk_df_def col_def iloc_def has_col_def cell_at_def cell_cmp_def and_also_def
  rsi_gate_def macd_gate_def bollinger_gate_def ema_gate_def sma_gate_def
  fgt_def fge_def vote_buy_def vote_sell_def vote_neutral_def put_detail_def

lemmas count_votes_defs = count_votes_def analyze_rsi_def analyze_macd_def
  analyze_bollinger_def analyze_sma_def analyze_ema_def

subsection \<open>Rounding to double precision\<close>

lemma round_even_between: "\<lfloor>z\<rfloor> \<le> round_even z" "round_even z \<le> \<lfloor>z\<rfloor> + 1"
  by (simp_all add: round_even_def Let_def)

lemma round_even_abs:
  assumes "\<bar>z\<bar> < 2 ^ 53"
  shows "\<bar>real_of_int (round_even z)\<bar> \<le> 2 ^ 53"
proof -
  have lo: "- (2 ^ 53) \<le> \<lfloor>z\<rfloor>"
    using assms by (simp add: le_floor_iff abs_less_iff)
  have "\<lfloor>z\<rfloor> < 2 ^ 53"
    using assms by (simp add: floor_less_iff abs_less_iff)
  then have hi: "\<lfloor>z\<rfloor> + 1 \<le> 2 ^ 53" by simp
  from lo hi round_even_between [of z]
  have "- (2 ^ 53) \<le> round_even z" "round_even z \<le> 2 ^ 53" by linarith+
  then have "- (2 ^ 53) \<le> real_of_int (round_even z)" "real_of_int (round_even z) \<le> 2 ^ 53"
    by (metis of_int_le_iff of_int_minus of_int_numeral of_int_power)+
  then show ?thesis by (simp add: abs_le_iff)
qed

lemma round_even_int [simp]: "round_even (of_int m) = m"
  by (simp add: round_even_def)

lemma rnd64_ge1:
  assumes "2 ^ k \<le> \<bar>x\<bar>" and "\<bar>x\<bar> < 2 * 2 ^ k" and "k \<le> 1022"
  shows "rnd64 x = Fin (of_int (round_even (x * 2 ^ 52 / 2 ^ k)) * 2 ^ k / 2 ^ 52)"
proof -
  have pos: "0 < \<bar>x\<bar>" using assms(1) by (smt (verit) zero_less_power)
  then have nz: "x \<noteq> 0" by simp
  have "\<lfloor>log 2 \<bar>x\<bar>\<rfloor> = int k"
    using assms(1,2) pos
    by (subst floor_log_eq_powr_iff) (simp_all add: powr_add powr_realpow)
  then have e: "max (- 1022) \<lfloor>log 2 \<bar>x\<bar>\<rfloor> = int k" by simp
  have ulp: "2 powr (of_int (int k) - 52) = 2 ^ k / (2 ^ 52 :: real)"
    by (simp add: powr_diff powr_realpow)
  have z: "\<bar>x / (2 ^ k / 2 ^ 52)\<bar> < 2 ^ 53"
  proof -
    have "\<bar>x / (2 ^ k / 2 ^ 52)\<bar> = \<bar>x\<bar> / 2 ^ k * 2 ^ 52" by (simp add: abs_mult abs_divide)
    also have "\<dots> < 2 * 2 ^ 52"
      using assms(2) by (simp add: pos_divide_less_eq)
    finally show ?thesis by simp
  qed
  have "\<bar>of_int (round_even (x / (2 ^ k / 2 ^ 52))) * (2 ^ k / (2 ^ 52 :: real))\<bar>
          \<le> 2 ^ 53 * (2 ^ k / 2 ^ 52)"
    using round_even_abs [OF z] by (simp add: abs_mult mult_right_mono)
  also have "\<dots> = 2 * 2 ^ k" by simp
  also have "\<dots> < 2 powr 1024"
  proof -
    have "(2 :: real) ^ k \<le> 2 ^ 1022" by (rule power_increasing) (use assms(3) in simp_all)
    then have "2 * (2 :: real) ^ k \<le> 2 ^ 1023" by simp
    also have "\<dots> < (2 :: real) ^ 1024" by (rule power_strict_increasing) simp_all
    finally show ?thesis by simp
  qed
  finally have small: "\<not> 2 powr 1024 \<le>
      \<bar>of_int (round_even (x / (2 ^ k / 2 ^ 52))) * (2 ^ k / (2 ^ 52 :: real))\<bar>"
    by simp
  show ?thesis
    unfolding rnd64_def Let_def e ulp using nz small by simp
qed

lemma rnd64_lt1:
  assumes "1 \<le> \<bar>x\<bar> * 2 ^ k" and "\<bar>x\<bar> * 2 ^ k < 2" and "k \<le> 1022"
  shows "rnd64 x = Fin (of_int (round_even (x * 2 ^ (52 + k))) / 2 ^ (52 + k))"
proof -
  have pos: "0 < \<bar>x\<bar>" using assms(1) by (smt (verit) mult_not_zero zero_less_abs_iff)
  then have nz: "x \<noteq> 0" by simp
  have p1: "2 powr (of_int (- int k)) = 1 / (2 ^ k :: real)"
    by (simp add: powr_minus powr_realpow divide_simps)
  have p2: "2 powr (of_int (- int k) + 1) = 2 / (2 ^ k :: real)"
    unfolding powr_add p1 by simp
  have "2 powr (of_int (- int k)) \<le> \<bar>x\<bar> \<and> \<bar>x\<bar> < 2 powr (of_int (- int k) + 1)"
    unfolding p1 p2 using assms(1,2) by (simp add: field_simps)
  then have "\<lfloor>log 2 \<bar>x\<bar>\<rfloor> = - int k"
    using pos by (subst floor_log_eq_powr_iff) simp_all
  then have e: "max (- 1022) \<lfloor>log 2 \<bar>x\<bar>\<rfloor> = - int k" using assms(3) by simp
  have ulp: "2 powr (of_int (- int k) - 52) = 1 / (2 ^ (52 + k) :: real)"
    by (simp add: powr_diff powr_minus powr_realpow power_add field_simps)
  have z: "\<bar>x / (1 / 2 ^ (52 + k))\<bar> < 2 ^ 53"
  proof -
    have "\<bar>x / (1 / 2 ^ (52 + k))\<bar> = \<bar>x\<bar> * 2 ^ k * 2 ^ 52"
      by (simp add: abs_mult power_add)
    also have "\<dots> < 2 * 2 ^ 52" using assms(2) by simp
    finally show ?thesis by simp
  qed
  have "\<bar>of_int (round_even (x / (1 / 2 ^ (52 + k)))) * (1 / (2 ^ (52 + k) :: real))\<bar>
          \<le> 2 ^ 53 * (1 / 2 ^ (52 + k))"
    using round_even_abs [OF z] by (simp add: abs_mult abs_divide divide_right_mono)
  also have "\<dots> \<le> 2 ^ 53 * 1"
    by (intro mult_left_mono) (simp_all add: divide_le_eq_1)
  also have "\<dots> < (2 :: real) ^ 1024" by simp
  also have "\<dots> = 2 powr 1024" by simp
  finally have small: "\<not> 2 powr 1024 \<le>
      \<bar>of_int (round_even (x / (1 / 2 ^ (52 + k)))) * (1 / (2 ^ (52 + k) :: real))\<bar>"
    by simp
  show ?thesis
    unfolding rnd64_def Let_def e ulp using nz small by simp
qed

lemma rnd64_0 [simp]: "rnd64 0 = Fin 0"
  by (simp add: rnd64_def)

text \<open>The return \<open>(last / first - 1) * 100\<close> in double precision for the closes of the
  concrete inputs: 1%, 20%, 100%, 0%, 10% and 5% rises.\<close>

lemma return_101_100:
  "fl_mul (fl_sub (fl_div (Fin 101) (Fin 100)) (Fin 1)) (Fin 100) = Fin (1125899906842625 / 1125899906842624)"
  apply (simp add: fl_div_def)
  apply (subst rnd64_ge1 [of 0])
     apply simp_all
  apply (simp add: round_even_def)
  apply (simp add: fl_sub_def fsub_def)
  apply (subst rnd64_lt1 [of _ 7])
     apply simp_all
  apply (simp add: round_even_def)
  apply (simp add: fl_mul_def)
  apply (subst rnd64_ge1 [of 0])
     apply simp_all
  apply (simp add: round_even_def)
  done

lemma return_120_100:
  "fl_mul (fl_sub (fl_div (Fin 120) (Fin 100)) (Fin 1)) (Fin 100) = Fin (5629499534213119 / 281474976710656)"
  apply (simp add: fl_div_def)
  apply (subst rnd64_ge1 [of 0])
     apply simp_all
  apply (simp add: round_even_def)
  apply (simp add: fl_sub_def fsub_def)
  apply (subst rnd64_lt1 [of _ 3])
     apply simp_all
  apply (simp add: round_even_def)
  apply (simp add: fl_mul_def)
  apply (subst rnd64_ge1 [of 4])
     apply simp_all
  apply (simp add: round_even_def)
  done

lemma return_202_200:
  "fl_mul (fl_sub (fl_div (Fin 202) (Fin 200)) (Fin 1)) (Fin 100) = Fin (1125899906842625 / 1125899906842624)"
  apply (simp add: fl_div_def)
  apply (subst rnd64_ge1 [of 0])
     apply simp_all
  apply (simp add: round_even_def)
  apply (simp add: fl_sub_def fsub_def)
  apply (subst rnd64_lt1 [of _ 7])
     apply simp_all
  apply (simp add: round_even_def)
  apply (simp add: fl_mul_def)
  apply (subst rnd64_ge1 [of 0])
     apply simp_all
  apply (simp add: round_even_def)
  done

lemma return_200_100:
  "fl_mul (fl_sub (fl_div (Fin 200) (Fin 100)) (Fin 1)) (Fin 100) = Fin (100)"
  apply (simp add: fl_div_def)
  apply (subst rnd64_ge1 [of 1])
     apply simp_all
  apply (simp add: round_even_def)
  apply (simp add: fl_sub_def fsub_def)
  apply (subst rnd64_ge1 [of 0])
     apply simp_all
  apply (simp add: round_even_def)
  apply (simp add: fl_mul_def)
  apply (subst rnd64_ge1 [of 6])
     apply simp_all
  apply (simp add: round_even_def)
  done

lemma return_200_200:
  "fl_mul (fl_sub (fl_div (Fin 200) (Fin 200)) (Fin 1)) (Fin 100) = Fin (0)"
  apply (simp add: fl_div_def)
  apply (subst rnd64_ge1 [of 0])
     apply simp_all
  apply (simp add: round_even_def)
  apply (simp add: fl_sub_def fsub_def)
  apply (simp add: fl_mul_def)
  done

lemma return_100_100:
  "fl_mul (fl_sub (fl_div (Fin 100) (Fin 100)) (Fin 1)) (Fin 100) = Fin (0)"
  apply (simp add: fl_div_def)
  apply (subst rnd64_ge1 [of 0])
     apply simp_all
  apply (simp add: round_even_def)
  apply (simp add: fl_sub_def fsub_def)
  apply (simp add: fl_mul_def)
  done

lemma return_110_100:
  "fl_mul (fl_sub (fl_div (Fin 110) (Fin 100)) (Fin 1)) (Fin 100) = Fin (5629499534213125 / 562949953421312)"
  apply (simp add: fl_div_def)
  apply (subst rnd64_ge1 [of 0])
     apply simp_all
  apply (simp add: round_even_def)
  apply (simp add: fl_sub_def fsub_def)
  apply (subst rnd64_lt1 [of _ 4])
     apply simp_all
  apply (simp add: round_even_def)
  apply (simp add: fl_mul_def)
  apply (subst rnd64_ge1 [of 3])
     apply simp_all
  apply (simp add: round_even_def)
  done

lemma return_105_100:
  "fl_mul (fl_sub (fl_div (Fin 105) (Fin 100)) (Fin 1)) (Fin 100) = Fin (5629499534213125 / 1125899906842624)"
  apply (simp add: fl_div_def)
  apply (subst rnd64_ge1 [of 0])
     apply simp_all
  apply (simp add: round_even_def)
  apply (simp add: fl_sub_def fsub_def)
  apply (subst rnd64_lt1 [of _ 5])
     apply simp_all
  apply (simp add: round_even_def)
  apply (simp add: fl_mul_def)
  apply (subst rnd64_ge1 [of 2])
     apply simp_all
  apply (simp add: round_even_def)
  done

lemmas return_values = return_101_100 return_120_100 return_202_200 return_200_100
  return_200_200 return_100_100 return_110_100 return_105_100

subsection \<open>The consolidation rule\<close>

text \<open>
  C1. Whenever the five indicator blocks of \<open>analyze_crypto\<close> finish with buy votes
  \<open>b\<close> and sell votes \<open>s\<close>, the call returns, and its signal is Achat (Buy) if
  \<open>b > s + 0.5\<close>, with strength fort (strong) exactly when \<open>b \<ge> 2 s\<close> and
  modere (moderate) otherwise; it is Vente (Sell) under the same rule with \<open>b\<close> and
  \<open>s\<close> swapped; in every other case it is Neutre (Neutral). In particular
  \<open>b = 1.5, s = 1\<close> gives Neutre and \<open>b = 2, s = 1\<close> gives Achat, fort. When a block
  raises, so does the call.
\<close>

theorem consolidation_rule:
  "case count_votes df sel of
     Inl e \<Rightarrow> analyze_crypto df sel = Inl e
   | Inr t \<Rightarrow> (\<exists>r. analyze_crypto df sel = Inr r \<and>
      (let b = buy_signals t; s = sell_signals t in
        (b > s + 1 / 2 \<longrightarrow> signal r = Achat \<and>
            strength_of (reason r) = Some (if b \<ge> 2 * s then Fort else Modere)) \<and>
        (s > b + 1 / 2 \<longrightarrow> signal r = Vente \<and>
            strength_of (reason r) = Some (if s \<ge> 2 * b then Fort else Modere)) \<and>
        (\<not> b > s + 1 / 2 \<and> \<not> s > b + 1 / 2 \<longrightarrow>
            signal r = Neutre \<and> strength_of (reason r) = None) \<and>
        (b = 3 / 2 \<and> s = 1 \<longrightarrow> signal r = Neutre) \<and>
        (b = 2 \<and> s = 1 \<longrightarrow> signal r = Achat \<and> strength_of (reason r) = Some Fort)))"
  by (simp add: analyze_crypto_def consolidate_def Let_def split: sum.split)

theorem consolidation_rule_witness:
  "(\<exists>t r. count_votes ex_df_neutral ex_sel = Inr t \<and> buy_signals t = 3 / 2 \<and> sell_signals t = 1
      \<and> analyze_crypto ex_df_neutral ex_sel = Inr r \<and> signal r = Neutre) \<and>
   (\<exists>t r. count_votes ex_df_buy ex_sel = Inr t \<and> buy_signals t = 2 \<and> sell_signals t = 1
      \<and> analyze_crypto ex_df_buy ex_sel = Inr r \<and> signal r = Achat
      \<and> strength_of (reason r) = Some Fort)"
proof -
  obtain t1 where t1: "count_votes ex_df_neutral ex_sel = Inr t1"
      "buy_signals t1 = 3 / 2" "sell_signals t1 = 1"
    by (simp add: count_votes_defs ex_df_neutral_def ex_sel_def eval_defs Let_def)
  obtain t2 where t2: "count_votes ex_df_buy ex_sel = Inr t2"
      "buy_signals t2 = 2" "sell_signals t2 = 1"
    by (simp add: count_votes_defs ex_df_buy_def ex_sel_def eval_defs Let_def)
  from consolidation_rule [of ex_df_neutral ex_sel] t1
  have "\<exists>r. analyze_crypto ex_df_neutral ex_sel = Inr r \<and> signal r = Neutre"
    by (auto simp: Let_def)
  moreover from consolidation_rule [of ex_df_buy ex_sel] t2
  have "\<exists>r. analyze_crypto ex_df_buy ex_sel = Inr r \<and> signal r = Achat
      \<and> strength_of (reason r) = Some Fort"
    by (auto simp: Let_def)
  ultimately show ?thesis using t1 t2 by blast
qed

subsection \<open>Evaluation of the engine and the scorer on concrete frames\<close>

lemmas engine_defs = indicators_of_def calculate_technical_indicators_def copy_df_def
  then_call_def calculate_rsi_def calculate_macd_def calculate_bollinger_bands_def
  calculate_moving_averages_def calculate_signals_def in_place_def rsi_update_def
  macd_update_def bollinger_update_def moving_averages_update_def signals_update_def
  signals_rsi_def signals_macd_def signals_bollinger_def signals_sma_def loc_set_def
  set_col_def set_col_scalar_def crossed_up_def crossed_down_def series_op_def mask_and_def
  loc_assign_def rolling_mean_def rolling_std_def window_at_def window_mean_def
  window_std_def full_window_def ewm_mean_def ewm_nobs_def ewm_weighted_def ewm_old_wt_def
  alpha_of_com_def alpha_of_span_def diff_def
  shift1_def clip_lower_def clip_upper_def rsi_cell_def fsub_def ma_up_of_def ma_down_of_def

lemmas score_defs = calculate_crypto_score_def score_momentum_def price_change_of_def
  momentum_points_def score_rsi_def last_rsi_def rsi_points_def score_macd_def macd_above_def
  macd_hist_rising_def macd_crossed_def score_bollinger_def near_lower_band_def
  band_bounce_def score_ema_def ema_above_def ema_crossed_def score_sma_def
  price_above_smas_def sma_above_def sma_golden_def score_volume_def volume_try_def
  volume_mean_of_def volume_change_of_def volume_points_def pts_def

subsection \<open>Ranking\<close>

lemma sorted_reverse_mset: "mset (sorted_reverse k xs) = mset xs"
  by (simp add: sorted_reverse_def)

lemma sorted_reverse_descending:
  "sorted_wrt (\<lambda>a b. k a \<ge> k b) (sorted_reverse k xs)"
proof -
  have "sorted (map k (sort_key k (rev xs)))" by (rule sorted_sort_key)
  then have "sorted_wrt (\<lambda>a b. k a \<le> k b) (sort_key k (rev xs))"
    by (simp add: sorted_map)
  then show ?thesis
    by (simp add: sorted_reverse_def sorted_wrt_rev)
qed

lemma sorted_reverse_stable:
  "filter (\<lambda>x. k x = v) (sorted_reverse k xs) = filter (\<lambda>x. k x = v) xs"
proof -
  have "filter (\<lambda>x. k x = v) (sort_key k (rev xs)) = filter (\<lambda>x. k x = v) (rev xs)"
    by (rule sort_key_stable)
  then show ?thesis
    by (simp add: sorted_reverse_def rev_filter [symmetric])
qed

lemma ex_dict_scores:
  "collect_scores ex_dict [] [] = Inr [(''AAA'', 1 / 2), (''BBB'', 2), (''CCC'', 1 / 2)]"
  by (simp add: ex_dict_def empty_df_def engine_defs score_defs eval_defs Let_def upt_rec
      return_values)

text \<open>
  C8. For a count \<open>top_n \<ge> 0\<close>: when the scores of the non-empty frames have been
  collected (in the iteration order of the dict), the call returns the first \<open>top_n\<close>
  entries of a list \<open>full\<close> that is a rearrangement of the collected
  \<open>(symbol, score)\<close> pairs, is in descending order of score, and keeps the pairs of
  any one score in their input order. When collecting raises, so does the call.
\<close>

theorem ranking_sorted_stable_truncated:
  assumes "0 \<le> top_n"
  shows "case collect_scores d sel [] of
           Inl e \<Rightarrow> identify_promising_cryptocurrencies d sel top_n = Inl e
         | Inr scores \<Rightarrow>
             (\<exists>full. identify_promising_cryptocurrencies d sel top_n = Inr (take (nat top_n) full)
                \<and> mset full = mset scores
                \<and> sorted_wrt (\<lambda>a b. snd a \<ge> snd b) full
                \<and> (\<forall>v. filter (\<lambda>x. snd x = v) full = filter (\<lambda>x. snd x = v) scores))"
proof (cases "collect_scores d sel []")
  case (Inl e)
  then show ?thesis by (simp add: identify_promising_cryptocurrencies_def)
next
  case (Inr scores)
  have "identify_promising_cryptocurrencies d sel top_n
          = Inr (take (nat top_n) (sorted_reverse snd scores))"
    using Inr assms
    by (simp add: identify_promising_cryptocurrencies_def rank_scores_def slice_to_def)
  then show ?thesis
    using Inr sorted_reverse_mset [of snd scores] sorted_reverse_descending [of snd scores]
      sorted_reverse_stable [of snd _ scores]
    by auto
qed

theorem ranking_sorted_stable_truncated_witness:
  "(0::int) \<le> 2
   \<and> collect_scores ex_dict [] [] = Inr [(''AAA'', 1 / 2), (''BBB'', 2), (''CCC'', 1 / 2)]
   \<and> (\<exists>full. identify_promising_cryptocurrencies ex_dict [] 2 = Inr (take (nat 2) full)
        \<and> mset full = mset [(''AAA'', 1 / 2), (''BBB'', 2), (''CCC'', 1 / 2)]
        \<and> sorted_wrt (\<lambda>a b. snd a \<ge> snd b) full
        \<and> (\<forall>v. filter (\<lambda>x. snd x = v) full
               = filter (\<lambda>x. snd x = v) [(''AAA'', 1 / 2), (''BBB'', 2), (''CCC'', 1 / 2)]))
   \<and> identify_promising_cryptocurrencies ex_dict [] 2 = Inr [(''BBB'', 2), (''AAA'', 1 / 2)]"
proof -
  have h: "(0::int) \<le> 2" by simp
  have r: "identify_promising_cryptocurrencies ex_dict [] 2 = Inr [(''BBB'', 2), (''AAA'', 1 / 2)]"
    by (simp add: identify_promising_cryptocurrencies_def ex_dict_scores rank_scores_def
        slice_to_def sorted_reverse_def)
  from ranking_sorted_stable_truncated [OF h, of ex_dict "[]"] ex_dict_scores r
  show ?thesis by simp
qed

subsection \<open>The score as a sum of bonus clauses\<close>

lemma clause_points_nonneg: "0 \<le> clause_points c"
  by (cases c) simp_all

lemma pts_mono: "0 \<le> p \<Longrightarrow> (a \<longrightarrow> b) \<Longrightarrow> pts a p \<le> pts b p"
  by (simp add: pts_def)

lemma clause_total_nonneg: "0 \<le> clause_total df sel"
  unfolding clause_total_def
  by (rule sum_list_nonneg) (auto simp: pts_def clause_points_nonneg)

lemma clause_total_mono:
  assumes "\<And>c. holds df sel c \<Longrightarrow> holds df' sel' c"
  shows "clause_total df sel \<le> clause_total df' sel'"
  unfolding clause_total_def
  by (rule sum_list_mono) (simp add: pts_mono clause_points_nonneg assms)

lemma score_momentum_clauses:
  assumes "score_momentum df = Inr p"
  shows "p = pts (holds df sel Momentum_gt10) 2 + pts (holds df sel Momentum_gt5) 1
           + pts (holds df sel Momentum_gt0) (1 / 2)"
  using assms
  by (cases "price_change_of df")
     (auto simp: score_momentum_def on_value_def momentum_points_def pts_def)

lemma score_rsi_clauses:
  assumes "score_rsi df sel = Inr p"
  shows "p = pts (holds df sel Rsi_40_60) (1 / 2) + pts (holds df sel Rsi_30_40) 1
           + pts (holds df sel Rsi_lt30) (3 / 2)"
  using assms
  by (cases "last_rsi df")
     (auto simp: score_rsi_def on_value_def rsi_points_def pts_def split: if_splits)

lemma score_macd_clauses:
  assumes "score_macd df sel = Inr p"
  shows "p = pts (holds df sel Macd_above) 1 + pts (holds df sel Macd_hist_rising) (1 / 2)
           + pts (holds df sel Macd_crossed) (3 / 2)"
  using assms
  by (cases "macd_above df"; cases "macd_hist_rising df"; cases "macd_crossed df")
     (auto simp: score_macd_def on_value_def pts_def split: if_splits)

lemma score_bollinger_clauses:
  assumes "score_bollinger df sel = Inr p"
  shows "p = pts (holds df sel Near_lower_band) 1 + pts (holds df sel Band_bounce) (3 / 2)"
  using assms
  by (cases "near_lower_band df"; cases "band_bounce df")
     (auto simp: score_bollinger_def on_value_def pts_def split: if_splits)

lemma score_ema_clauses:
  assumes "score_ema df sel = Inr p"
  shows "p = pts (holds df sel Ema_above) 1 + pts (holds df sel Ema_crossed) (3 / 2)"
  using assms
  by (cases "ema_above df"; cases "ema_crossed df")
     (auto simp: score_ema_def on_value_def pts_def split: if_splits)

lemma score_sma_clauses:
  assumes "score_sma df sel = Inr p"
  shows "p = pts (holds df sel Price_above_smas) 1 + pts (holds df sel Sma_above) 1
           + pts (holds df sel Sma_golden) 2"
  using assms
  by (cases "price_above_smas df"; cases "sma_above df"; cases "sma_golden df")
     (auto simp: score_sma_def on_value_def pts_def split: if_splits)

lemma score_volume_clauses:
  assumes "score_volume df = Inr p"
  shows "p = pts (holds df sel Volume_gt15) 1 + pts (holds df sel Volume_gt12) (1 / 2)"
proof (cases "volume_mean_of df")
  case (Inl e)
  then show ?thesis using assms
    by (cases e) (simp_all add: score_volume_def volume_try_def on_value_def pts_def)
next
  case (Inr vm)
  show ?thesis
  proof (cases "fgt vm (Fin 0)")
    case False
    then show ?thesis using assms Inr
      by (simp add: score_volume_def volume_try_def on_value_def pts_def)
  next
    case True
    show ?thesis
    proof (cases "volume_change_of df vm")
      case (Inl e)
      then show ?thesis using assms Inr True
        by (cases e) (simp_all add: score_volume_def volume_try_def on_value_def pts_def)
    next
      case vc: (Inr vc)
      then show ?thesis using assms Inr True
        by (auto simp: score_volume_def volume_try_def on_value_def pts_def volume_points_def)
    qed
  qed
qed

lemma score_is_clause_total:
  assumes "calculate_crypto_score df sel = Inr s"
  shows "s = clause_total df sel"
proof -
  from assms obtain p0 p1 p2 p3 p4 p5 p6 where
    b: "score_momentum df = Inr p0" "score_rsi df sel = Inr p1" "score_macd df sel = Inr p2"
       "score_bollinger df sel = Inr p3" "score_ema df sel = Inr p4" "score_sma df sel = Inr p5"
       "score_volume df = Inr p6"
    and s: "s = 0 + p0 + p1 + p2 + p3 + p4 + p5 + p6"
    by (auto simp: calculate_crypto_score_def bindE_def split: sum.splits)
  show ?thesis
    unfolding s clause_total_def all_clauses_def
    using score_momentum_clauses [OF b(1), of sel] score_rsi_clauses [OF b(2)]
      score_macd_clauses [OF b(3)] score_bollinger_clauses [OF b(4)]
      score_ema_clauses [OF b(5)] score_sma_clauses [OF b(6)]
      score_volume_clauses [OF b(7), of sel]
    by simp
qed

text \<open>
  C7. Whenever \<open>calculate_crypto_score\<close> returns a score, the score is non-negative;
  it is the sum of the points of the bonus clauses whose condition holds; and it is
  monotone in the set of satisfied clauses: at any input (frame and selection) at
  which every clause satisfied here is satisfied too, a returned score is at least
  this one. Making one more clause true and leaving the others as they are is the
  special case of one additional clause.
\<close>

theorem score_nonnegative_monotone:
  assumes "calculate_crypto_score df sel = Inr s"
  shows "0 \<le> s \<and> s = clause_total df sel \<and>
         (\<forall>df' sel' s'. calculate_crypto_score df' sel' = Inr s'
             \<and> (\<forall>c. holds df sel c \<longrightarrow> holds df' sel' c) \<longrightarrow> s \<le> s')"
  using score_is_clause_total [OF assms] clause_total_nonneg [of df sel]
    clause_total_mono [of df sel] score_is_clause_total
  by blast

theorem score_nonnegative_monotone_witness:
  "\<exists>df. indicators_of ex_two_bars = Inr df
      \<and> calculate_crypto_score df [] = Inr (1 / 2)
      \<and> calculate_crypto_score df [''MACD''] = Inr (7 / 2)
      \<and> (\<forall>c. holds df [] c \<longrightarrow> holds df [''MACD''] c)
      \<and> (0::real) \<le> 1 / 2 \<and> 1 / 2 = clause_total df [] \<and> (1 / 2 :: real) \<le> 7 / 2"
proof -
  obtain df where df: "indicators_of ex_two_bars = Inr df"
    and s: "calculate_crypto_score df [] = Inr (1 / 2)"
    and s': "calculate_crypto_score df [''MACD''] = Inr (7 / 2)"
    by (simp add: ex_two_bars_def engine_defs score_defs eval_defs Let_def upt_rec
        return_values)
  have sub: "holds df [] c \<longrightarrow> holds df [''MACD''] c" for c
    by (cases c) (simp_all add: rsi_gate_def macd_gate_def bollinger_gate_def ema_gate_def
        sma_gate_def)
  from score_nonnegative_monotone [OF s] s' sub df s show ?thesis
    by (intro exI [of _ df]) auto
qed

subsection \<open>The momentum clause\<close>

text \<open>
  The claim that the momentum return is taken over a 7-bar window fails at a series
  of nine bars whose first close is 100 and whose other closes are 200: over the whole
  series the close has doubled and the scorer adds 2.0, while over the last seven bars
  (indeed over any window that leaves out the first bar) the return is 0, for which
  the claim has no points.
\<close>

theorem momentum_window_counterexample:
  "score_momentum ex_nine_bars = Inr 2
   \<and> spec_window7_return ex_nine_bars = Inr (Fin 0)
   \<and> spec_score_momentum ex_nine_bars = Inr 0
   \<and> calculate_crypto_score ex_nine_bars [] = Inr 2"
  by (simp add: ex_nine_bars_def spec_score_momentum_def spec_window7_return_def score_defs
      eval_defs rolling_mean_def window_at_def window_mean_def full_window_def mean_def
      Let_def upt_rec return_values)

lemma iloc_last: "cs \<noteq> [] \<Longrightarrow> iloc cs (- 1) = Inr (last cs)"
  by (cases cs rule: rev_cases) (simp_all add: iloc_def)

lemma iloc_first: "cs \<noteq> [] \<Longrightarrow> iloc cs 0 = Inr (hd cs)"
  by (cases cs) (simp_all add: iloc_def)

lemma price_change_first_last:
  assumes "columns df ''close'' = Some cs" and "cs \<noteq> []"
  shows "price_change_of df = Inr (fl_mul (fl_sub (fl_div (last cs) (hd cs)) (Fin 1)) (Fin 100))"
  using assms by (simp add: price_change_of_def col_def iloc_last iloc_first)

text \<open>
  C2, as the code has it. The momentum clause compares the last close of the frame
  with its first close, whatever the number of bars and whatever the closes in
  between: with \<open>r\<close> the return \<open>(last / first - 1) * 100\<close> as the three
  double-precision operations compute it, it adds 2.0 when \<open>r > 10\<close>, 1.0 when
  \<open>5 < r \<le> 10\<close>, 0.5 when \<open>0 < r \<le> 5\<close> and nothing otherwise; two frames with the
  same first and the same last close get the same points. (In double precision a
  rise from 100 to 110 gives \<open>r\<close> just above 10, hence 2.0, and a rise from 100 to 105
  gives \<open>r\<close> just above 5, hence 1.0.)
\<close>

theorem momentum_whole_series:
  assumes "columns df ''close'' = Some cs" and "cs \<noteq> []"
  shows "price_change_of df = Inr (fl_mul (fl_sub (fl_div (last cs) (hd cs)) (Fin 1)) (Fin 100))
    \<and> (\<forall>r. price_change_of df = Inr r \<longrightarrow>
          score_momentum df =
            Inr (if fgt r (Fin 10) then 2 else if fgt r (Fin 5) then 1
                 else if fgt r (Fin 0) then 1 / 2 else 0))
    \<and> (\<forall>df' cs'. columns df' ''close'' = Some cs' \<and> cs' \<noteq> []
            \<and> hd cs' = hd cs \<and> last cs' = last cs
          \<longrightarrow> score_momentum df' = score_momentum df)"
proof -
  note pc = price_change_first_last [OF assms]
  have same: "score_momentum df' = score_momentum df"
    if "columns df' ''close'' = Some cs'" "cs' \<noteq> []" "hd cs' = hd cs" "last cs' = last cs"
    for df' cs'
    using price_change_first_last [OF that(1,2)] pc that(3,4)
    by (simp add: score_momentum_def)
  show ?thesis using pc same by (simp add: score_momentum_def momentum_points_def)
qed

theorem momentum_whole_series_witness:
  "columns ex_nine_bars ''close''
      = Some [Fin 100, Fin 200, Fin 200, Fin 200, Fin 200, Fin 200, Fin 200, Fin 200, Fin 200]
   \<and> score_momentum ex_nine_bars = Inr 2
   \<and> columns ex_rise_10 ''close'' = Some [Fin 100, Fin 110]
   \<and> price_change_of ex_rise_10 = Inr (Fin (5629499534213125 / 562949953421312))
   \<and> score_momentum ex_rise_10 = Inr 2
   \<and> columns ex_rise_5 ''close'' = Some [Fin 100, Fin 105]
   \<and> price_change_of ex_rise_5 = Inr (Fin (5629499534213125 / 1125899906842624))
   \<and> score_momentum ex_rise_5 = Inr 1"
proof -
  let ?cs = "[Fin 100, Fin 200, Fin 200, Fin 200, Fin 200, Fin 200, Fin 200, Fin 200, Fin 200]"
  have c9: "columns ex_nine_bars ''close'' = Some ?cs"
    by (simp add: ex_nine_bars_def mk_df_def)
  have c10: "columns ex_rise_10 ''close'' = Some [Fin 100, Fin 110]"
    by (simp add: ex_rise_10_def mk_df_def)
  have c5: "columns ex_rise_5 ''close'' = Some [Fin 100, Fin 105]"
    by (simp add: ex_rise_5_def mk_df_def)
  have n9: "?cs \<noteq> []" and n2: "[Fin 100, Fin 110] \<noteq> []" "[Fin 100, Fin 105] \<noteq> []"
    by simp_all
  from momentum_whole_series [OF c9 n9]
  have 1: "score_momentum ex_nine_bars = Inr 2"
    by (simp add: return_values fgt_def)
  from momentum_whole_series [OF c10 n2(1)]
  have 2: "price_change_of ex_rise_10 = Inr (Fin (5629499534213125 / 562949953421312))"
    "score_momentum ex_rise_10 = Inr 2"
    by (simp_all add: return_values fgt_def)
  from momentum_whole_series [OF c5 n2(2)]
  have 3: "price_change_of ex_rise_5 = Inr (Fin (5629499534213125 / 1125899906842624))"
    "score_momentum ex_rise_5 = Inr 1"
    by (simp_all add: return_values fgt_def)
  from c9 c10 c5 1 2 3 show ?thesis by simp
qed

subsection \<open>The signal column\<close>

lemma shift1_length [simp]: "length (shift1 xs) = length xs"
  by (cases xs) (simp_all add: shift1_def)

lemma shift1_nth: "i < length xs \<Longrightarrow> shift1 xs ! i = prev_at xs i"
  by (cases xs) (auto simp: shift1_def prev_at_def nth_Cons' nth_butlast)

lemma series_op_length [simp]: "length (series_op f xs ys) = min (length xs) (length ys)"
  by (simp add: series_op_def)

lemma series_op_nth:
  "i < length xs \<Longrightarrow> i < length ys \<Longrightarrow> series_op f xs ys ! i = f (xs ! i) (ys ! i)"
  by (simp add: series_op_def)

lemma mask_and_length [simp]: "length (mask_and ms ns) = min (length ms) (length ns)"
  by (simp add: mask_and_def)

lemma mask_and_nth:
  "i < length ms \<Longrightarrow> i < length ns \<Longrightarrow> mask_and ms ns ! i = (ms ! i \<and> ns ! i)"
  by (simp add: mask_and_def)

lemma loc_assign_length [simp]: "length (loc_assign ms v xs) = min (length ms) (length xs)"
  by (simp add: loc_assign_def)

lemma loc_assign_nth:
  "i < length ms \<Longrightarrow> i < length xs \<Longrightarrow> loc_assign ms v xs ! i = (if ms ! i then v else xs ! i)"
  by (simp add: loc_assign_def)

lemma crossed_up_length [simp]: "length (crossed_up a b) = min (length a) (length b)"
  by (simp add: crossed_up_def)

lemma crossed_down_length [simp]: "length (crossed_down a b) = min (length a) (length b)"
  by (simp add: crossed_down_def)

lemma crossed_up_nth:
  "i < length a \<Longrightarrow> i < length b \<Longrightarrow> crossed_up a b ! i = cross_up_at a b i"
  by (simp add: crossed_up_def mask_and_nth series_op_nth shift1_nth cross_up_at_def)

lemma crossed_down_nth:
  "i < length a \<Longrightarrow> i < length b \<Longrightarrow> crossed_down a b ! i = cross_down_at a b i"
  by (simp add: crossed_down_def mask_and_nth series_op_nth shift1_nth cross_down_at_def)

lemma signals_update_signal:
  assumes n: "length c = n" "length rsi = n" "length m = n" "length s = n"
             "length u = n" "length l = n" "length a = n" "length b = n" "index_len df = n"
    and cols: "columns df ''close'' = Some c" "columns df ''RSI'' = Some rsi"
      "columns df ''MACD'' = Some m" "columns df ''MACD_signal'' = Some s"
      "columns df ''BB_upper'' = Some u" "columns df ''BB_lower'' = Some l"
      "columns df ''SMA_50'' = Some a" "columns df ''SMA_200'' = Some b"
  shows "\<exists>df' sig. signals_update df = Inr df' \<and> columns df' ''signal'' = Some sig
           \<and> length sig = n \<and> (\<forall>i<n. sig ! i = signal_at c rsi m s u l a b i)"
  using n cols
  apply (simp add: signals_update_def signals_rsi_def signals_macd_def signals_bollinger_def
      signals_sma_def loc_set_def set_col_def set_col_scalar_def has_col_def col_def Let_def)
  apply (simp add: loc_assign_nth crossed_up_nth crossed_down_nth series_op_nth signal_at_def)
  done

text \<open>
  C10. On a well-formed frame that has the close and the RSI, MACD, Bollinger and SMA
  columns, \<open>calculate_signals\<close> returns the frame it was given, and the \<open>signal\<close>
  column it has assigned holds at every bar exactly one of -1, 0 and 1, namely the
  value of the last assignment whose condition holds at that bar: the SMA crosses
  override the Bollinger proximity tests (thresholds 1.01 and 0.99), which override
  the MACD crossovers, which override the RSI thresholds; within one indicator the
  sell assignment, made second, overrides the buy assignment.
\<close>

theorem signal_column_last_writer_wins:
  assumes "wf_df (objs h p)" and "index_len (objs h p) = n"
    and "columns (objs h p) ''close'' = Some c" and "columns (objs h p) ''RSI'' = Some rsi"
    and "columns (objs h p) ''MACD'' = Some m" and "columns (objs h p) ''MACD_signal'' = Some s"
    and "columns (objs h p) ''BB_upper'' = Some u" and "columns (objs h p) ''BB_lower'' = Some l"
    and "columns (objs h p) ''SMA_50'' = Some a" and "columns (objs h p) ''SMA_200'' = Some b"
  shows "\<exists>h' sig. calculate_signals h p = (h', Inr p)
           \<and> columns (objs h' p) ''signal'' = Some sig \<and> length sig = n
           \<and> (\<forall>i<n. sig ! i = signal_at c rsi m s u l a b i
                    \<and> sig ! i \<in> {Fin (- 1), Fin 0, Fin 1})"
proof -
  have len: "length c = n" "length rsi = n" "length m = n" "length s = n"
      "length u = n" "length l = n" "length a = n" "length b = n"
    using assms by (auto simp: wf_df_def)
  from signals_update_signal [OF len assms(2-)]
  obtain df' sig where r: "signals_update (objs h p) = Inr df'"
    and sig: "columns df' ''signal'' = Some sig" "length sig = n"
      "\<forall>i<n. sig ! i = signal_at c rsi m s u l a b i"
    by blast
  have "signal_at c rsi m s u l a b i \<in> {Fin (- 1), Fin 0, Fin 1}" for i
    by (simp add: signal_at_def)
  with r sig show ?thesis
    by (simp add: calculate_signals_def in_place_def)
qed

theorem signal_column_last_writer_wins_witness:
  "\<exists>h' sig. calculate_signals ex_signal_store 0 = (h', Inr 0)
      \<and> columns (objs h' 0) ''signal'' = Some sig \<and> length sig = 4
      \<and> sig ! 0 = Fin 1 \<and> sig ! 1 = Fin 1 \<and> sig ! 2 = Fin 1 \<and> sig ! 3 = Fin (- 1)"
proof -
  have wf: "wf_df (objs ex_signal_store 0)"
    by (simp add: wf_df_def ex_signal_store_def ex_signal_frame_def mk_df_def split: if_splits)
  have n: "index_len (objs ex_signal_store 0) = 4"
    by (simp add: ex_signal_store_def ex_signal_frame_def mk_df_def)
  note cols = ex_signal_store_def ex_signal_frame_def mk_df_def
  from signal_column_last_writer_wins [OF wf n,
      of "[Fin 100, Fin 100, Fin 100, Fin 100]" "[Fin 20, Fin 80, Fin 50, Fin 50]"
         "[Fin 0, Fin 1, Fin (- 1), Fin (- 1)]" "[Fin 0, Fin 0, Fin 0, Fin 0]"
         "[Fin 200, Fin 200, Fin 200, Fin 200]" "[Fin 50, Fin 50, Fin 100, Fin 100]"
         "[Fin 5, Fin 5, Fin 5, Fin 4]" "[Fin 5, Fin 5, Fin 5, Fin 5]"]
  obtain h' sig where r: "calculate_signals ex_signal_store 0 = (h', Inr 0)"
    "columns (objs h' 0) ''signal'' = Some sig" "length sig = 4"
    and at: "\<And>i. i < 4 \<Longrightarrow> sig ! i = signal_at [Fin 100, Fin 100, Fin 100, Fin 100]
       [Fin 20, Fin 80, Fin 50, Fin 50] [Fin 0, Fin 1, Fin (- 1), Fin (- 1)]
       [Fin 0, Fin 0, Fin 0, Fin 0] [Fin 200, Fin 200, Fin 200, Fin 200]
       [Fin 50, Fin 50, Fin 100, Fin 100] [Fin 5, Fin 5, Fin 5, Fin 4]
       [Fin 5, Fin 5, Fin 5, Fin 5] i"
    by (auto simp: cols)
  have "sig ! 0 = Fin 1" "sig ! 1 = Fin 1" "sig ! 2 = Fin 1" "sig ! 3 = Fin (- 1)"
    using at [of 0] at [of 1] at [of 2] at [of 3]
    by (simp_all add: signal_at_def cross_up_at_def cross_down_at_def prev_at_def fgt_def fge_def)
  with r show ?thesis by blast
qed

subsection \<open>Bollinger Bands\<close>

lemma rolling_mean_length [simp]: "length (rolling_mean w xs) = length xs"
  by (simp add: rolling_mean_def)

lemma rolling_std_length [simp]: "length (rolling_std w xs) = length xs"
  by (simp add: rolling_std_def)

lemma rolling_mean_nth:
  "i < length xs \<Longrightarrow> rolling_mean w xs ! i = window_mean w (window_at w xs i)"
  by (simp add: rolling_mean_def)

lemma rolling_std_nth:
  "i < length xs \<Longrightarrow> rolling_std w xs ! i = window_std w (window_at w xs i)"
  by (simp add: rolling_std_def)

lemma sample_std_nonneg: "1 < length ys \<Longrightarrow> 0 \<le> sample_std ys"
  unfolding sample_std_def
  by (intro real_sqrt_ge_zero divide_nonneg_nonneg sum_list_nonneg) auto

lemma band_order:
  assumes "window_mean w win \<noteq> NaN" and "1 < w" and "0 \<le> k"
  shows "\<exists>mu sd. window_mean w win = Fin mu \<and> window_std w win = Fin sd \<and> 0 \<le> sd
           \<and> fle (fsub (Fin mu) (fmul (Fin sd) (Fin k))) (Fin mu)
           \<and> fle (Fin mu) (fadd (Fin mu) (fmul (Fin sd) (Fin k)))"
proof -
  from assms(1) have full: "full_window w win"
    by (auto simp: window_mean_def split: if_splits)
  then have len: "1 < length (map fin_val win)"
    using assms(2) by (simp add: full_window_def)
  have sd: "0 \<le> sample_std (map fin_val win)" by (rule sample_std_nonneg [OF len])
  show ?thesis
    using full assms(2,3) sd by (simp add: window_mean_def window_std_def fsub_def)
qed

lemma bollinger_update_columns:
  assumes "columns df ''close'' = Some c"
  shows "bollinger_update period k df =
     Inr (set_col (set_col (set_col df ''BB_middle'' (rolling_mean period c))
        ''BB_upper'' (series_op fadd (rolling_mean period c)
                        (map (\<lambda>s. fmul s (Fin k)) (rolling_std period c))))
        ''BB_lower'' (series_op fsub (rolling_mean period c)
                        (map (\<lambda>s. fmul s (Fin k)) (rolling_std period c))))"
  using assms by (simp add: bollinger_update_def col_def set_col_def Let_def)

text \<open>
  C5. On any frame with a close column, \<open>calculate_bollinger_bands\<close> returns the frame
  with the three band columns assigned, each as long as the close column, and at every
  bar where BB_middle is defined (is not NaN) BB_lower \<open>\<le>\<close> BB_middle \<open>\<le>\<close> BB_upper.
\<close>

theorem bollinger_bands_ordered:
  assumes "columns (objs h p) ''close'' = Some c"
  shows "\<exists>h' mid up lo. calculate_bollinger_bands h p = (h', Inr p)
      \<and> columns (objs h' p) ''BB_middle'' = Some mid
      \<and> columns (objs h' p) ''BB_upper'' = Some up
      \<and> columns (objs h' p) ''BB_lower'' = Some lo
      \<and> length mid = length c \<and> length up = length c \<and> length lo = length c
      \<and> (\<forall>i<length c. mid ! i \<noteq> NaN \<longrightarrow> fle (lo ! i) (mid ! i) \<and> fle (mid ! i) (up ! i))"
proof -
  let ?mid = "rolling_mean 20 c"
  let ?band = "map (\<lambda>s. fmul s (Fin 2)) (rolling_std 20 c)"
  let ?up = "series_op fadd ?mid ?band"
  let ?lo = "series_op fsub ?mid ?band"
  have ord: "fle (?lo ! i) (?mid ! i) \<and> fle (?mid ! i) (?up ! i)"
    if i: "i < length c" and d: "?mid ! i \<noteq> NaN" for i
  proof -
    from d i have "window_mean 20 (window_at 20 c i) \<noteq> NaN" by (simp add: rolling_mean_nth)
    from band_order [OF this, of 2]
    obtain mu sd where "window_mean 20 (window_at 20 c i) = Fin mu"
      "window_std 20 (window_at 20 c i) = Fin sd"
      "fle (fsub (Fin mu) (fmul (Fin sd) (Fin 2))) (Fin mu)"
      "fle (Fin mu) (fadd (Fin mu) (fmul (Fin sd) (Fin 2)))"
      by auto
    then show ?thesis using i
      by (simp add: series_op_def rolling_mean_nth rolling_std_nth)
  qed
  show ?thesis
    using bollinger_update_columns [OF assms, of 20 2] ord
    by (simp add: calculate_bollinger_bands_def in_place_def set_col_def series_op_def)
qed

lemma ex_band_mean: "rolling_mean 20 ex_band_closes ! 19 = Fin 100"
  by (simp add: rolling_mean_nth ex_band_closes_def window_at_def window_mean_def full_window_def mean_def)

lemma ex_band_std: "rolling_std 20 ex_band_closes ! 19 = Fin 2"
  by (simp add: rolling_std_nth ex_band_closes_def window_at_def window_std_def full_window_def
      mean_def sample_std_def)

theorem bollinger_bands_ordered_witness:
  "\<exists>h' mid up lo. calculate_bollinger_bands ex_band_store 0 = (h', Inr 0)
      \<and> columns (objs h' 0) ''BB_middle'' = Some mid
      \<and> columns (objs h' 0) ''BB_upper'' = Some up
      \<and> columns (objs h' 0) ''BB_lower'' = Some lo
      \<and> mid ! 19 = Fin 100 \<and> up ! 19 = Fin 104 \<and> lo ! 19 = Fin 96
      \<and> fle (lo ! 19) (mid ! 19) \<and> fle (mid ! 19) (up ! 19)"
proof -
  have c: "columns (objs ex_band_store 0) ''close'' = Some ex_band_closes"
    by (simp add: ex_band_store_def mk_df_def)
  have len: "length ex_band_closes = 20" by (simp add: ex_band_closes_def)
  from bollinger_bands_ordered [OF c]
  obtain h' mid up lo where r: "calculate_bollinger_bands ex_band_store 0 = (h', Inr 0)"
    and cols: "columns (objs h' 0) ''BB_middle'' = Some mid"
      "columns (objs h' 0) ''BB_upper'' = Some up"
      "columns (objs h' 0) ''BB_lower'' = Some lo"
    and ord: "\<forall>i<length ex_band_closes. mid ! i \<noteq> NaN \<longrightarrow>
                fle (lo ! i) (mid ! i) \<and> fle (mid ! i) (up ! i)"
    by blast
  from r cols have
    mid: "mid = rolling_mean 20 ex_band_closes" and
    up: "up = series_op fadd (rolling_mean 20 ex_band_closes)
                (map (\<lambda>s. fmul s (Fin 2)) (rolling_std 20 ex_band_closes))" and
    lo: "lo = series_op fsub (rolling_mean 20 ex_band_closes)
                (map (\<lambda>s. fmul s (Fin 2)) (rolling_std 20 ex_band_closes))"
    using bollinger_update_columns [OF c, of 20 2]
    by (auto simp: calculate_bollinger_bands_def in_place_def set_col_def)
  have m19: "mid ! 19 = Fin 100" by (simp add: mid ex_band_mean)
  have u19: "up ! 19 = Fin 104"
    by (simp add: up series_op_def len ex_band_mean ex_band_std)
  have l19: "lo ! 19 = Fin 96"
    by (simp add: lo series_op_def len ex_band_mean ex_band_std fsub_def)
  from ord [rule_format, of 19] len m19
  have "fle (lo ! 19) (mid ! 19) \<and> fle (mid ! 19) (up ! 19)" by simp
  with r cols m19 u19 l19 show ?thesis by blast
qed

subsection \<open>RSI\<close>

lemma ewm_loop_length [simp]: "length (ewm_loop al adj minp w ow nobs xs) = length xs"
  by (induction xs arbitrary: w ow nobs) simp_all

lemma ewm_mean_length [simp]: "length (ewm_mean al adj minp xs) = length xs"
  by (cases xs) (simp_all add: ewm_mean_def Let_def)

lemma diff_length [simp]: "length (diff xs) = length xs"
  by (cases xs) (simp_all add: diff_def)

lemma ewm_weighted_nonneg:
  assumes "nonneg_or_nan w" "nonneg_or_nan cur" "0 \<le> ow" "0 \<le> al" "al \<le> 1"
  shows "nonneg_or_nan (ewm_weighted al True w ow cur)"
proof (cases "w = NaN \<or> cur = NaN \<or> w = cur")
  case True
  then show ?thesis using assms(1,2) by (auto simp: ewm_weighted_def Let_def)
next
  case False
  with assms(1,2) obtain a b where ab: "w = Fin a" "cur = Fin b" "0 \<le> a" "0 \<le> b"
    by (cases w; cases cur) auto
  have ow1: "0 \<le> ow * (1 - al)" using assms(3-5) by simp
  then have "ow * (1 - al) + 1 \<noteq> 0" by linarith
  then show ?thesis using ab ow1 False by (simp add: ewm_weighted_def Let_def)
qed

lemma ewm_old_wt_nonneg:
  assumes "0 \<le> ow" "0 \<le> al" "al \<le> 1"
  shows "0 \<le> ewm_old_wt al True w ow cur"
proof -
  have "0 \<le> ow * (1 - al)" using assms by simp
  then show ?thesis using assms(1) by (simp add: ewm_old_wt_def Let_def)
qed

lemma ewm_loop_nonneg:
  assumes "0 \<le> al" "al \<le> 1"
  shows "list_all nonneg_or_nan xs \<Longrightarrow> nonneg_or_nan w \<Longrightarrow> 0 \<le> ow \<Longrightarrow>
         list_all nonneg_or_nan (ewm_loop al True minp w ow nobs xs)"
proof (induction xs arbitrary: w ow nobs)
  case Nil
  then show ?case by simp
next
  case (Cons cur rest)
  have rest: "list_all nonneg_or_nan rest" and cur: "nonneg_or_nan cur"
    using Cons.prems(1) by simp_all
  have w': "nonneg_or_nan (ewm_weighted al True w ow cur)"
    by (rule ewm_weighted_nonneg [OF Cons.prems(2) cur Cons.prems(3) assms])
  have ow': "0 \<le> ewm_old_wt al True w ow cur"
    by (rule ewm_old_wt_nonneg [OF Cons.prems(3) assms])
  from Cons.IH [OF rest w' ow'] w' show ?case by simp
qed

lemma ewm_mean_nonneg:
  assumes "0 \<le> al" "al \<le> 1" "list_all nonneg_or_nan xs"
  shows "list_all nonneg_or_nan (ewm_mean al True minp xs)"
proof (cases xs)
  case Nil
  then show ?thesis by (simp add: ewm_mean_def)
next
  case (Cons x rest)
  with assms(3) have x: "nonneg_or_nan x" and rest: "list_all nonneg_or_nan rest" by simp_all
  from ewm_loop_nonneg [OF assms(1,2) rest x, of 1]
  show ?thesis using Cons x by (simp add: ewm_mean_def Let_def)
qed

lemma is_fin_iff: "is_fin x \<longleftrightarrow> (\<exists>a. x = Fin a)"
  by (cases x) simp_all

lemma diff_finite:
  assumes "list_all is_fin c"
  shows "list_all (\<lambda>x. x = NaN \<or> is_fin x) (diff c)"
proof (cases c)
  case Nil
  then show ?thesis by (simp add: diff_def)
next
  case (Cons x rest)
  have "is_fin (fsub a b)" if "is_fin a" "is_fin b" for a b
    using that by (auto simp: is_fin_iff fsub_def)
  then have "list_all is_fin (map (\<lambda>(a, b). fsub a b) (zip rest c))"
    using assms Cons
    by (auto simp: list_all_iff elim!: in_set_zipE)
  then show ?thesis using Cons by (simp add: diff_def list_all_iff)
qed

lemma up_moves_nonneg:
  assumes "list_all is_fin c"
  shows "list_all nonneg_or_nan (map (clip_lower 0) (diff c))"
  using diff_finite [OF assms]
  by (auto simp: list_all_iff clip_lower_def is_fin_iff)

lemma down_moves_nonneg:
  assumes "list_all is_fin c"
  shows "list_all nonneg_or_nan (map (\<lambda>x. fmul (Fin (- 1)) (clip_upper 0 x)) (diff c))"
  using diff_finite [OF assms]
  by (auto simp: list_all_iff clip_upper_def is_fin_iff)

lemma alpha_14: "0 \<le> alpha_of_com (real 14 - 1)" "alpha_of_com (real 14 - 1) \<le> 1"
  by (simp_all add: alpha_of_com_def)

lemma ma_up_nonneg: "list_all is_fin c \<Longrightarrow> list_all nonneg_or_nan (ma_up_of 14 c)"
  unfolding ma_up_of_def Let_def
  by (rule ewm_mean_nonneg [OF alpha_14]) (rule up_moves_nonneg)

lemma ma_down_nonneg: "list_all is_fin c \<Longrightarrow> list_all nonneg_or_nan (ma_down_of 14 c)"
  unfolding ma_down_of_def Let_def
  by (rule ewm_mean_nonneg [OF alpha_14]) (rule down_moves_nonneg)

lemma ma_lengths [simp]: "length (ma_up_of n c) = length c" "length (ma_down_of n c) = length c"
  by (simp_all add: ma_up_of_def ma_down_of_def)

lemma rsi_cell_range:
  assumes "nonneg_or_nan u" "nonneg_or_nan d"
  shows "rsi_cell u d = NaN \<or> (\<exists>r. rsi_cell u d = Fin r \<and> 0 \<le> r \<and> r \<le> 100)"
proof (cases "u = NaN \<or> d = NaN")
  case True
  then show ?thesis by (cases u; cases d) (auto simp: rsi_cell_def fsub_def)
next
  case False
  with assms obtain a b where ab: "u = Fin a" "d = Fin b" "0 \<le> a" "0 \<le> b"
    by (cases u; cases d) auto
  show ?thesis
  proof (cases "b = 0")
    case True
    then show ?thesis using ab by (simp add: rsi_cell_def fsub_def)
  next
    case False
    then have b: "0 < b" using ab by simp
    have q: "0 \<le> a / b" using ab b by simp
    then have pos: "1 + a / b \<noteq> 0" by linarith
    have eq: "rsi_cell u d = Fin (100 - 100 / (1 + a / b))"
      using ab False pos by (simp add: rsi_cell_def fsub_def)
    have "0 < 1 + a / b" using q by linarith
    then have "0 \<le> 100 / (1 + a / b)" "100 / (1 + a / b) \<le> 100"
      using q by (simp_all add: divide_le_eq)
    then have "0 \<le> 100 - 100 / (1 + a / b)" "100 - 100 / (1 + a / b) \<le> 100"
      by linarith+
    with eq show ?thesis by blast
  qed
qed

lemma rsi_cell_saturates: "0 < u \<Longrightarrow> rsi_cell (Fin u) (Fin 0) = Fin 100"
  by (simp add: rsi_cell_def fsub_def)

lemma rsi_cell_undefined: "rsi_cell (Fin 0) (Fin 0) = NaN"
  by (simp add: rsi_cell_def fsub_def)

text \<open>
  C4. On any frame whose close column holds only numbers (as every valid price series
  does), \<open>calculate_rsi\<close> returns the frame with an RSI column as long as the close
  column, and at every bar: the RSI is the source's formula on the two smoothed
  averages; it is either undefined (NaN) or a number in [0, 100]; it is 100 when the
  smoothed down-move average is 0 and the smoothed up-move average is positive; and
  it is undefined when both averages are 0. No case raises.
\<close>

theorem rsi_range_and_zero_cases:
  assumes "columns (objs h p) ''close'' = Some c" and "list_all is_fin c"
  shows "\<exists>h' rsi. calculate_rsi h p = (h', Inr p)
      \<and> columns (objs h' p) ''RSI'' = Some rsi \<and> length rsi = length c
      \<and> (\<forall>i<length c.
            rsi ! i = rsi_cell (ma_up_of 14 c ! i) (ma_down_of 14 c ! i)
          \<and> (rsi ! i = NaN \<or> (\<exists>r. rsi ! i = Fin r \<and> 0 \<le> r \<and> r \<le> 100))
          \<and> (\<forall>u. ma_down_of 14 c ! i = Fin 0 \<and> ma_up_of 14 c ! i = Fin u \<and> 0 < u
                 \<longrightarrow> rsi ! i = Fin 100)
          \<and> (ma_down_of 14 c ! i = Fin 0 \<and> ma_up_of 14 c ! i = Fin 0 \<longrightarrow> rsi ! i = NaN))"
proof -
  let ?rsi = "series_op rsi_cell (ma_up_of 14 c) (ma_down_of 14 c)"
  have run: "calculate_rsi h p = (h\<lparr>objs := (objs h)(p := set_col (objs h p) ''RSI'' ?rsi)\<rparr>, Inr p)"
    using assms(1) by (simp add: calculate_rsi_def in_place_def rsi_update_def col_def Let_def)
  have at: "?rsi ! i = rsi_cell (ma_up_of 14 c ! i) (ma_down_of 14 c ! i)" if "i < length c" for i
    using that by (simp add: series_op_def)
  have range: "?rsi ! i = NaN \<or> (\<exists>r. ?rsi ! i = Fin r \<and> 0 \<le> r \<and> r \<le> 100)"
    if i: "i < length c" for i
  proof -
    have "nonneg_or_nan (ma_up_of 14 c ! i)" "nonneg_or_nan (ma_down_of 14 c ! i)"
      using ma_up_nonneg [OF assms(2)] ma_down_nonneg [OF assms(2)] i
      by (simp_all add: list_all_length)
    from rsi_cell_range [OF this] show ?thesis using at [OF i] by simp
  qed
  show ?thesis
    using run at range
    by (auto simp: set_col_def series_op_def rsi_cell_saturates rsi_cell_undefined
        intro!: exI [of _ ?rsi])
qed

lemmas ma_eval = ma_up_of_def ma_down_of_def diff_def ewm_mean_def alpha_of_com_def
  ewm_nobs_def ewm_weighted_def ewm_old_wt_def
  clip_lower_def clip_upper_def fsub_def Let_def

lemma ex_rising_ma:
  "ma_up_of 14 ex_rising_closes ! 15 = Fin 1" "ma_down_of 14 ex_rising_closes ! 15 = Fin 0"
  "ma_up_of 14 ex_rising_closes ! 13 = NaN"
  by (simp_all add: ex_rising_closes_def ma_eval)

lemma ex_flat_ma:
  "ma_up_of 14 ex_flat_closes ! 15 = Fin 0" "ma_down_of 14 ex_flat_closes ! 15 = Fin 0"
  by (simp_all add: ex_flat_closes_def ma_eval)

lemma ex_mixed_ma:
  "ma_up_of 14 ex_mixed_closes ! 15 = Fin (67131885663565101 / 104382202543721467)"
  "ma_down_of 14 ex_mixed_closes ! 15 = Fin (48362323705714382 / 104382202543721467)"
  by (simp_all add: ex_mixed_closes_def ma_eval)

theorem rsi_range_and_zero_cases_witness:
  "(\<exists>h' rsi. calculate_rsi ex_rsi_store 0 = (h', Inr 0)
       \<and> columns (objs h' 0) ''RSI'' = Some rsi \<and> length rsi = 16 \<and> rsi ! 15 = Fin 100)
   \<and> (\<exists>h' rsi. calculate_rsi ex_rsi_store 1 = (h', Inr 1)
       \<and> columns (objs h' 1) ''RSI'' = Some rsi \<and> length rsi = 16 \<and> rsi ! 15 = NaN)
   \<and> (\<exists>h' rsi. calculate_rsi ex_rsi_store 2 = (h', Inr 2)
       \<and> columns (objs h' 2) ''RSI'' = Some rsi \<and> length rsi = 16
       \<and> rsi ! 15 = Fin (6713188566356510100 / 115494209369279483))"
proof -
  have c0: "columns (objs ex_rsi_store 0) ''close'' = Some ex_rising_closes"
    and c1: "columns (objs ex_rsi_store 1) ''close'' = Some ex_flat_closes"
    and c2: "columns (objs ex_rsi_store 2) ''close'' = Some ex_mixed_closes"
    by (simp_all add: ex_rsi_store_def mk_df_def)
  have f0: "list_all is_fin ex_rising_closes" and f1: "list_all is_fin ex_flat_closes"
    and f2: "list_all is_fin ex_mixed_closes"
    by (simp_all add: ex_rising_closes_def ex_flat_closes_def ex_mixed_closes_def)
  have l0: "length ex_rising_closes = 16" and l1: "length ex_flat_closes = 16"
    and l2: "length ex_mixed_closes = 16"
    by (simp_all add: ex_rising_closes_def ex_flat_closes_def ex_mixed_closes_def)
  have p0: "\<exists>h' rsi. calculate_rsi ex_rsi_store 0 = (h', Inr 0)
       \<and> columns (objs h' 0) ''RSI'' = Some rsi \<and> length rsi = 16 \<and> rsi ! 15 = Fin 100"
  proof -
    from rsi_range_and_zero_cases [OF c0 f0]
    obtain h' rsi where r: "calculate_rsi ex_rsi_store 0 = (h', Inr 0)"
        "columns (objs h' 0) ''RSI'' = Some rsi" "length rsi = length ex_rising_closes"
      and all: "\<forall>i<length ex_rising_closes.
            rsi ! i = rsi_cell (ma_up_of 14 ex_rising_closes ! i) (ma_down_of 14 ex_rising_closes ! i)
          \<and> (rsi ! i = NaN \<or> (\<exists>r. rsi ! i = Fin r \<and> 0 \<le> r \<and> r \<le> 100))
          \<and> (\<forall>u. ma_down_of 14 ex_rising_closes ! i = Fin 0 \<and> ma_up_of 14 ex_rising_closes ! i = Fin u \<and> 0 < u
                 \<longrightarrow> rsi ! i = Fin 100)
          \<and> (ma_down_of 14 ex_rising_closes ! i = Fin 0 \<and> ma_up_of 14 ex_rising_closes ! i = Fin 0
                 \<longrightarrow> rsi ! i = NaN)"
      by (elim exE conjE) (rule that)
    have i: "(15::nat) < length ex_rising_closes" unfolding l0 by simp
    note at = all [rule_format, OF i]
    from at [THEN conjunct2, THEN conjunct2, THEN conjunct1, rule_format, of 1] ex_rising_ma(1,2)
    have "rsi ! 15 = Fin 100" by simp
    with r show ?thesis unfolding l0 by (intro exI conjI)
  qed
  have p1: "\<exists>h' rsi. calculate_rsi ex_rsi_store 1 = (h', Inr 1)
       \<and> columns (objs h' 1) ''RSI'' = Some rsi \<and> length rsi = 16 \<and> rsi ! 15 = NaN"
  proof -
    from rsi_range_and_zero_cases [OF c1 f1]
    obtain h' rsi where r: "calculate_rsi ex_rsi_store 1 = (h', Inr 1)"
        "columns (objs h' 1) ''RSI'' = Some rsi" "length rsi = length ex_flat_closes"
      and all: "\<forall>i<length ex_flat_closes.
            rsi ! i = rsi_cell (ma_up_of 14 ex_flat_closes ! i) (ma_down_of 14 ex_flat_closes ! i)
          \<and> (rsi ! i = NaN \<or> (\<exists>r. rsi ! i = Fin r \<and> 0 \<le> r \<and> r \<le> 100))
          \<and> (\<forall>u. ma_down_of 14 ex_flat_closes ! i = Fin 0 \<and> ma_up_of 14 ex_flat_closes ! i = Fin u \<and> 0 < u
                 \<longrightarrow> rsi ! i = Fin 100)
          \<and> (ma_down_of 14 ex_flat_closes ! i = Fin 0 \<and> ma_up_of 14 ex_flat_closes ! i = Fin 0
                 \<longrightarrow> rsi ! i = NaN)"
      by (elim exE conjE) (rule that)
    have i: "(15::nat) < length ex_flat_closes" unfolding l1 by simp
    note at = all [rule_format, OF i]
    from at [THEN conjunct2, THEN conjunct2, THEN conjunct2, rule_format] ex_flat_ma
    have "rsi ! 15 = NaN" by simp
    with r show ?thesis unfolding l1 by (intro exI conjI)
  qed
  have p2: "\<exists>h' rsi. calculate_rsi ex_rsi_store 2 = (h', Inr 2)
       \<and> columns (objs h' 2) ''RSI'' = Some rsi \<and> length rsi = 16
       \<and> rsi ! 15 = Fin (6713188566356510100 / 115494209369279483)"
  proof -
    from rsi_range_and_zero_cases [OF c2 f2]
    obtain h' rsi where r: "calculate_rsi ex_rsi_store 2 = (h', Inr 2)"
        "columns (objs h' 2) ''RSI'' = Some rsi" "length rsi = length ex_mixed_closes"
      and all: "\<forall>i<length ex_mixed_closes.
            rsi ! i = rsi_cell (ma_up_of 14 ex_mixed_closes ! i) (ma_down_of 14 ex_mixed_closes ! i)
          \<and> (rsi ! i = NaN \<or> (\<exists>r. rsi ! i = Fin r \<and> 0 \<le> r \<and> r \<le> 100))
          \<and> (\<forall>u. ma_down_of 14 ex_mixed_closes ! i = Fin 0 \<and> ma_up_of 14 ex_mixed_closes ! i = Fin u \<and> 0 < u
                 \<longrightarrow> rsi ! i = Fin 100)
          \<and> (ma_down_of 14 ex_mixed_closes ! i = Fin 0 \<and> ma_up_of 14 ex_mixed_closes ! i = Fin 0
                 \<longrightarrow> rsi ! i = NaN)"
      by (elim exE conjE) (rule that)
    have i: "(15::nat) < length ex_mixed_closes" unfolding l2 by simp
    note at = all [rule_format, OF i]
    from at [THEN conjunct1]
    have "rsi ! 15 = Fin (6713188566356510100 / 115494209369279483)"
      by (simp add: ex_mixed_ma rsi_cell_def fsub_def)
    with r show ?thesis unfolding l2 by (intro exI conjI)
  qed
  from p0 p1 p2 show ?thesis by (intro conjI)
qed

subsection \<open>The engine leaves its input alone\<close>

lemma same_but_refl: "same_but ks df df"
  by (simp add: same_but_def)

lemma same_but_trans:
  "same_but ks df df' \<Longrightarrow> same_but ks' df' df'' \<Longrightarrow> same_but (ks \<union> ks') df df''"
  by (simp add: same_but_def)

lemma same_but_mono: "same_but ks df df' \<Longrightarrow> ks \<subseteq> ks' \<Longrightarrow> same_but ks' df df'"
  by (auto simp: same_but_def)

lemma set_col_same_but: "same_but {c} df (set_col df c xs)"
  by (simp add: same_but_def set_col_def)

lemma loc_set_same_but: "loc_set df m c v = Inr df' \<Longrightarrow> same_but {c} df df'"
  by (auto simp: loc_set_def col_def set_col_same_but split: option.splits)

lemma bindE_Inr_iff: "bindE m f = Inr y \<longleftrightarrow> (\<exists>x. m = Inr x \<and> f x = Inr y)"
  by (cases m) simp_all

lemma rsi_update_same_but: "rsi_update n df = Inr df' \<Longrightarrow> same_but {''RSI''} df df'"
  by (auto simp: rsi_update_def bindE_Inr_iff Let_def set_col_same_but)

lemma macd_update_same_but:
  "macd_update a b c df = Inr df' \<Longrightarrow> same_but {''MACD'', ''MACD_signal'', ''MACD_hist''} df df'"
  by (auto simp: macd_update_def bindE_Inr_iff Let_def same_but_def set_col_def)

lemma bollinger_update_same_but:
  "bollinger_update n k df = Inr df' \<Longrightarrow> same_but {''BB_middle'', ''BB_upper'', ''BB_lower''} df df'"
  by (auto simp: bollinger_update_def bindE_Inr_iff Let_def same_but_def set_col_def)

lemma moving_averages_update_same_but:
  "moving_averages_update df = Inr df' \<Longrightarrow>
     same_but {''SMA_50'', ''SMA_200'', ''EMA_20'', ''EMA_50''} df df'"
  by (auto simp: moving_averages_update_def bindE_Inr_iff Let_def same_but_def set_col_def)

lemma signals_rsi_same_but: "signals_rsi df = Inr df' \<Longrightarrow> same_but {''signal''} df df'"
  by (auto simp: signals_rsi_def bindE_Inr_iff same_but_refl split: if_splits
      dest!: loc_set_same_but dest: same_but_trans)

lemma signals_bollinger_same_but: "signals_bollinger df = Inr df' \<Longrightarrow> same_but {''signal''} df df'"
  by (auto simp: signals_bollinger_def bindE_Inr_iff same_but_refl split: if_splits
      dest!: loc_set_same_but dest: same_but_trans)

lemma signals_sma_same_but: "signals_sma df = Inr df' \<Longrightarrow> same_but {''signal''} df df'"
  by (auto simp: signals_sma_def bindE_Inr_iff same_but_refl Let_def split: if_splits
      dest!: loc_set_same_but dest: same_but_trans)

lemma signals_macd_same_but:
  "signals_macd df = Inr df' \<Longrightarrow> same_but {''signal'', ''macd_crossover''} df df'"
  by (auto simp: signals_macd_def bindE_Inr_iff same_but_refl Let_def set_col_scalar_def
      split: if_splits dest!: loc_set_same_but)
     (auto simp: same_but_def set_col_def)

lemma signals_update_same_but:
  assumes "signals_update df = Inr df'"
  shows "same_but {''signal'', ''macd_crossover''} df df'"
proof -
  from assms obtain d1 d2 d3 where
    s: "signals_rsi (set_col_scalar df ''signal'' (Fin 0)) = Inr d1"
       "signals_macd d1 = Inr d2" "signals_bollinger d2 = Inr d3" "signals_sma d3 = Inr df'"
    by (auto simp: signals_update_def bindE_Inr_iff)
  have "same_but {''signal''} df (set_col_scalar df ''signal'' (Fin 0))"
    by (simp add: set_col_scalar_def set_col_same_but)
  with s(1) [THEN signals_rsi_same_but] s(2) [THEN signals_macd_same_but]
    s(3) [THEN signals_bollinger_same_but] s(4) [THEN signals_sma_same_but]
  show ?thesis by (auto simp: same_but_def)
qed

lemma engine_updates_same_but:
  assumes "engine_updates df = Inr df'"
  shows "same_but (set engine_columns) df df'"
proof -
  from assms obtain d1 d2 d3 d4 where
    s: "rsi_update 14 df = Inr d1" "macd_update 12 26 9 d1 = Inr d2"
       "bollinger_update 20 2 d2 = Inr d3" "moving_averages_update d3 = Inr d4"
       "signals_update d4 = Inr df'"
    by (auto simp: engine_updates_def bindE_Inr_iff)
  from s(1) [THEN rsi_update_same_but] s(2) [THEN macd_update_same_but]
    s(3) [THEN bollinger_update_same_but] s(4) [THEN moving_averages_update_same_but]
    s(5) [THEN signals_update_same_but]
  show ?thesis by (auto simp: same_but_def engine_columns_def)
qed

lemma col_Some: "columns df c = Some xs \<Longrightarrow> col df c = Inr xs"
  by (simp add: col_def)

lemma loc_set_Inr:
  "columns df c = Some xs \<Longrightarrow> loc_set df m c v = Inr (set_col df c (loc_assign m v xs))"
  by (simp add: loc_set_def col_def)

lemma signals_update_returns:
  assumes "columns df ''close'' = Some c"
  shows "\<exists>df'. signals_update df = Inr df'"
  using assms
  by (simp add: signals_update_def signals_rsi_def signals_macd_def signals_bollinger_def
      signals_sma_def loc_set_def set_col_def set_col_scalar_def has_col_def col_def Let_def
      split: option.splits)

lemma engine_updates_returns:
  assumes "columns df ''close'' = Some c"
  shows "\<exists>df'. engine_updates df = Inr df'"
proof -
  have 1: "\<exists>d. rsi_update 14 df = Inr d \<and> columns d ''close'' = Some c"
    using assms by (simp add: rsi_update_def col_def set_col_def Let_def)
  then obtain d1 where d1: "rsi_update 14 df = Inr d1" "columns d1 ''close'' = Some c" by blast
  have "\<exists>d. macd_update 12 26 9 d1 = Inr d \<and> columns d ''close'' = Some c"
    using d1(2) by (simp add: macd_update_def col_def set_col_def Let_def)
  then obtain d2 where d2: "macd_update 12 26 9 d1 = Inr d2" "columns d2 ''close'' = Some c"
    by blast
  have "\<exists>d. bollinger_update 20 2 d2 = Inr d \<and> columns d ''close'' = Some c"
    using d2(2) by (simp add: bollinger_update_def col_def set_col_def Let_def)
  then obtain d3 where d3: "bollinger_update 20 2 d2 = Inr d3" "columns d3 ''close'' = Some c"
    by blast
  have "\<exists>d. moving_averages_update d3 = Inr d \<and> columns d ''close'' = Some c"
    using d3(2) by (simp add: moving_averages_update_def col_def set_col_def Let_def)
  then obtain d4 where d4: "moving_averages_update d3 = Inr d4" "columns d4 ''close'' = Some c"
    by blast
  from signals_update_returns [OF d4(2)] obtain d5 where "signals_update d4 = Inr d5" by blast
  with d1 d2 d3 d4 show ?thesis by (simp add: engine_updates_def)
qed

lemmas store_defs = calculate_technical_indicators_def copy_df_def then_call_def
  calculate_rsi_def calculate_macd_def calculate_bollinger_bands_def
  calculate_moving_averages_def calculate_signals_def in_place_def

lemma cti_Inr:
  assumes "engine_updates (objs h a) = Inr df"
  shows "calculate_technical_indicators h a =
     (\<lparr>objs = (objs h)(next_free h := df), next_free = Suc (next_free h)\<rparr>, Inr (next_free h))"
  using assms
  by (auto simp: store_defs engine_updates_def bindE_def split: sum.splits)

lemma cti_Inl:
  assumes "engine_updates (objs h a) = Inl e"
  shows "snd (calculate_technical_indicators h a) = Inl e"
  using assms
  by (auto simp: store_defs engine_updates_def bindE_def split: sum.splits)

lemma cti_frame:
  assumes "b \<noteq> next_free h"
  shows "objs (fst (calculate_technical_indicators h a)) b = objs h b"
  using assms
  by (auto simp: store_defs split: sum.splits)

lemma indicators_of_eq: "indicators_of data = engine_updates data"
proof (cases "engine_updates data")
  case (Inl e)
  then show ?thesis
    using cti_Inl [of "\<lparr>objs = (\<lambda>_. data), next_free = 1\<rparr>" 0 e]
    by (auto simp: indicators_of_def split: prod.splits sum.splits)
next
  case (Inr df)
  then show ?thesis
    using cti_Inr [of "\<lparr>objs = (\<lambda>_. data), next_free = 1\<rparr>" 0 df]
    by (simp add: indicators_of_def)
qed

text \<open>By contrast \<open>calculate_rsi\<close> alone changes the frame it is given.\<close>

lemma calculate_rsi_mutates:
  assumes "columns (objs h p) ''close'' = Some c"
  shows "columns (objs (fst (calculate_rsi h p)) p) ''RSI''
           = Some (series_op rsi_cell (ma_up_of 14 c) (ma_down_of 14 c))"
  using assms by (simp add: calculate_rsi_def in_place_def rsi_update_def col_def set_col_def Let_def)

text \<open>
  C9. \<open>calculate_technical_indicators\<close>, called with a reference \<open>p\<close> to a live
  frame, leaves every frame that was live before the call as it was, the frame behind
  \<open>p\<close> among them, whether it returns or raises. When it returns, the result is a
  reference that did not exist before the call; the frame behind it is the input frame
  after the five updates, and differs from the input frame only in the columns the
  engine assigns.
\<close>

theorem technical_indicators_leaves_input:
  assumes "p < next_free h"
  shows "\<exists>h' r. calculate_technical_indicators h p = (h', r)
     \<and> (\<forall>q. q < next_free h \<longrightarrow> objs h' q = objs h q)
     \<and> objs h' p = objs h p
     \<and> (case r of
           Inl e \<Rightarrow> engine_updates (objs h p) = Inl e
         | Inr c \<Rightarrow> c = next_free h \<and> c \<noteq> p \<and> next_free h' = Suc c
              \<and> engine_updates (objs h p) = Inr (objs h' c)
              \<and> same_but (set engine_columns) (objs h p) (objs h' c))"
proof (cases "engine_updates (objs h p)")
  case (Inl e)
  obtain h' r where hr: "calculate_technical_indicators h p = (h', r)" by fastforce
  with cti_Inl [OF Inl] have r: "r = Inl e" by simp
  have "objs h' q = objs h q" if "q < next_free h" for q
    using cti_frame [of q h p] that hr by simp
  with hr r Inl assms show ?thesis by simp
next
  case (Inr df)
  from cti_Inr [OF Inr] engine_updates_same_but [OF Inr] Inr assms
  show ?thesis by simp
qed

theorem technical_indicators_leaves_input_witness:
  "\<exists>h'. calculate_technical_indicators \<lparr>objs = (\<lambda>_. ex_two_bars), next_free = 1\<rparr> 0 = (h', Inr 1)
     \<and> objs h' 0 = ex_two_bars
     \<and> columns (objs h' 1) ''close'' = Some [Fin 100, Fin 101]
     \<and> columns (objs h' 1) ''SMA_50'' = Some [NaN, NaN]
     \<and> columns ex_two_bars ''SMA_50'' = None"
proof -
  let ?h = "\<lparr>objs = (\<lambda>_. ex_two_bars), next_free = 1\<rparr>"
  have live: "0 < next_free ?h" by simp
  have c: "columns (objs ?h 0) ''close'' = Some [Fin 100, Fin 101]"
    by (simp add: ex_two_bars_def mk_df_def)
  from engine_updates_returns [OF c] obtain df where df: "engine_updates (objs ?h 0) = Inr df"
    by blast
  from technical_indicators_leaves_input [OF live]
  obtain h' r where r: "calculate_technical_indicators ?h 0 = (h', r)"
    and same: "objs h' 0 = objs ?h 0"
    and res: "case r of
           Inl e \<Rightarrow> engine_updates (objs ?h 0) = Inl e
         | Inr c \<Rightarrow> c = next_free ?h \<and> c \<noteq> 0 \<and> next_free h' = Suc c
              \<and> engine_updates (objs ?h 0) = Inr (objs h' c)
              \<and> same_but (set engine_columns) (objs ?h 0) (objs h' c)"
    by (elim exE conjE) (rule that)
  from res df have r1: "r = Inr 1" and eq: "objs h' 1 = df"
    and sb: "same_but (set engine_columns) (objs ?h 0) (objs h' 1)"
    by (cases r; simp)+
  from sb c have close: "columns (objs h' 1) ''close'' = Some [Fin 100, Fin 101]"
    by (simp add: same_but_def engine_columns_def)
  have sma: "columns df ''SMA_50'' = Some [NaN, NaN]"
    using df
    by (auto simp add: ex_two_bars_def engine_updates_def engine_defs eval_defs Let_def upt_rec)
  have none: "columns ex_two_bars ''SMA_50'' = None"
    by (simp add: ex_two_bars_def mk_df_def)
  from r r1 same close sma eq none show ?thesis by simp
qed

subsection \<open>The SMA votes of the consolidator\<close>

lemma engine_updates_sma:
  assumes "engine_updates df = Inr df'" and "columns df ''close'' = Some c"
  shows "columns df' ''close'' = Some c \<and> columns df' ''SMA_50'' = Some (rolling_mean 50 c)
       \<and> columns df' ''SMA_200'' = Some (rolling_mean 200 c)"
proof -
  from assms(1) obtain d1 d2 d3 d4 where
    s: "rsi_update 14 df = Inr d1" "macd_update 12 26 9 d1 = Inr d2"
       "bollinger_update 20 2 d2 = Inr d3" "moving_averages_update d3 = Inr d4"
       "signals_update d4 = Inr df'"
    by (auto simp: engine_updates_def bindE_Inr_iff)
  from s(1) [THEN rsi_update_same_but] s(2) [THEN macd_update_same_but]
    s(3) [THEN bollinger_update_same_but] assms(2)
  have c3: "columns d3 ''close'' = Some c" by (simp add: same_but_def)
  with s(4) have d4: "columns d4 ''close'' = Some c"
    "columns d4 ''SMA_50'' = Some (rolling_mean 50 c)"
    "columns d4 ''SMA_200'' = Some (rolling_mean 200 c)"
    by (auto simp: moving_averages_update_def col_def set_col_def Let_def)
  with s(5) [THEN signals_update_same_but] show ?thesis by (simp add: same_but_def)
qed

lemmas window_eval = rolling_mean_nth window_at_def window_mean_def full_window_def mean_def

lemma ex_cross_len: "length ex_cross_closes = 221"
  by (simp add: ex_cross_closes_def)

lemma ex_cross_sma:
  "rolling_mean 50 ex_cross_closes ! 220 = Fin (7 / 5)"
  "rolling_mean 200 ex_cross_closes ! 220 = Fin (11 / 10)"
  "rolling_mean 50 ex_cross_closes ! 201 = Fin (51 / 50)"
  "rolling_mean 200 ex_cross_closes ! 201 = Fin (201 / 200)"
  "rolling_mean 50 ex_cross_closes ! 200 = Fin 1"
  "rolling_mean 200 ex_cross_closes ! 200 = Fin 1"
  by (simp_all add: window_eval ex_cross_closes_def list_all_iff sum_list_replicate)

lemma ex_cross_close_col: "columns ex_cross_frame ''close'' = Some ex_cross_closes"
  by (simp add: ex_cross_frame_def mk_df_def)

lemma ex_cross_last: "ex_cross_closes ! 220 = Fin 2"
  by (simp add: ex_cross_closes_def nth_append)

lemma ex_cross_votes:
  assumes "engine_updates ex_cross_frame = Inr df"
  shows "count_votes df [''SMA''] =
     Inr \<lparr>buy_signals = 1 / 2, sell_signals = 0, neutral_signals = 0,
          details = [(''SMA_50'', Formatted (Fin (7 / 5))), (''SMA_200'', Formatted (Fin (11 / 10))),
                     (''SMA_position'', Label ''Positif (SMA 50 > SMA 200)'')]\<rparr>"
proof -
  note cols = engine_updates_sma [OF assms ex_cross_close_col]
  show ?thesis
    using cols
    by (simp add: count_votes_defs rsi_gate_def macd_gate_def bollinger_gate_def ema_gate_def
        sma_gate_def has_col_def cell_at_def cell_cmp_def and_also_def col_def iloc_def
        ex_cross_len ex_cross_sma ex_cross_last fgt_def fge_def vote_buy_def put_detail_def)
qed

text \<open>
  The claim that a Golden Cross is registered exactly when SMA_50 is above SMA_200 at
  the latest bar and not above it at the bar 20 positions earlier fails on the series
  of 221 bars: at the latest bar, 220, SMA_50 = 1.4 is above SMA_200 = 1.1, and at bar
  200, twenty positions earlier, SMA_50 = SMA_200 = 1. The source reads \<open>iloc[-20]\<close>,
  which is bar 201, where SMA_50 = 1.02 is already above SMA_200 = 1.005: it registers
  no cross, gives half a buy vote for the position, and the signal is Neutre.
\<close>

theorem golden_cross_lookback_counterexample:
  "generate_signals [(''AAA'', ex_cross_frame)] [''SMA''] =
     Inr [(''AAA'',
        \<lparr>signal = Neutre, reason = Signaux_mixtes (1 / 2) 0,
         detail_map = [(''SMA_50'', Formatted (Fin (7 / 5))), (''SMA_200'', Formatted (Fin (11 / 10))),
                       (''SMA_position'', Label ''Positif (SMA 50 > SMA 200)'')],
         advice = Conseil_neutre\<rparr>)]
   \<and> rolling_mean 50 ex_cross_closes ! 220 = Fin (7 / 5)
   \<and> rolling_mean 200 ex_cross_closes ! 220 = Fin (11 / 10)
   \<and> rolling_mean 50 ex_cross_closes ! 200 = Fin 1
   \<and> rolling_mean 200 ex_cross_closes ! 200 = Fin 1
   \<and> rolling_mean 50 ex_cross_closes ! 201 = Fin (51 / 50)
   \<and> rolling_mean 200 ex_cross_closes ! 201 = Fin (201 / 200)
   \<and> spec_golden_cross (rolling_mean 50 ex_cross_closes) (rolling_mean 200 ex_cross_closes)"
proof -
  from engine_updates_returns [OF ex_cross_close_col]
  obtain df where df: "engine_updates ex_cross_frame = Inr df" by blast
  have ne: "\<not> empty_df ex_cross_frame"
    by (simp add: empty_df_def ex_cross_frame_def mk_df_def)
  have "generate_signals [(''AAA'', ex_cross_frame)] [''SMA''] =
     Inr [(''AAA'',
        \<lparr>signal = Neutre, reason = Signaux_mixtes (1 / 2) 0,
         detail_map = [(''SMA_50'', Formatted (Fin (7 / 5))), (''SMA_200'', Formatted (Fin (11 / 10))),
                       (''SMA_position'', Label ''Positif (SMA 50 > SMA 200)'')],
         advice = Conseil_neutre\<rparr>)]"
    using ne df ex_cross_votes [OF df]
    by (simp add: generate_signals_def indicators_of_eq analyze_crypto_def consolidate_def)
  with ex_cross_sma show ?thesis by (simp add: spec_golden_cross_def ex_cross_len fgt_def)
qed

lemma iloc_back:
  "0 < k \<Longrightarrow> k \<le> length xs \<Longrightarrow> iloc xs (- int k) = Inr (xs ! (length xs - k))"
  by (simp add: iloc_def)

lemma vote_fields [simp]:
  "buy_signals (vote_buy w k l t) = buy_signals t + w"
  "sell_signals (vote_buy w k l t) = sell_signals t"
  "neutral_signals (vote_buy w k l t) = neutral_signals t"
  "buy_signals (vote_sell w k l t) = buy_signals t"
  "sell_signals (vote_sell w k l t) = sell_signals t + w"
  "neutral_signals (vote_sell w k l t) = neutral_signals t"
  "buy_signals (vote_neutral w k l t) = buy_signals t"
  "sell_signals (vote_neutral w k l t) = sell_signals t"
  "neutral_signals (vote_neutral w k l t) = neutral_signals t + w"
  "buy_signals (put_detail k d t) = buy_signals t"
  "sell_signals (put_detail k d t) = sell_signals t"
  "neutral_signals (put_detail k d t) = neutral_signals t"
  by (simp_all add: vote_buy_def vote_sell_def vote_neutral_def put_detail_def)

text \<open>
  C6, as the code has it. With SMA selected, on a frame of \<open>n \<ge> 20\<close> bars that has the
  close and the two SMA columns, the SMA block returns and changes the votes as
  follows, where the earlier bar is bar \<open>n - 20\<close>, the twentieth from the end and 19
  positions before the latest bar \<open>n - 1\<close>: a Golden Cross (SMA_50 above SMA_200 at
  the latest bar, not above it at the earlier bar) adds 2 buy votes; otherwise a
  Death Cross (below at the latest bar, not below at the earlier bar) adds 2 sell
  votes; otherwise SMA_50 above SMA_200 adds 0.5 buy, SMA_50 below SMA_200 adds 0.5
  sell, and anything else (equality among them) adds 0.5 neutral.
\<close>

theorem sma_cross_rule:
  assumes "''SMA'' \<in> set sel"
    and "columns df ''close'' = Some c" and "columns df ''SMA_50'' = Some xs"
    and "columns df ''SMA_200'' = Some ys"
    and "length c = n" and "length xs = n" and "length ys = n" and "20 \<le> n"
  shows "\<exists>t'. analyze_sma df sel t = Inr t' \<and>
     (let a = xs ! (n - 1); b = ys ! (n - 1); a' = xs ! (n - 20); b' = ys ! (n - 20);
          golden = (fgt a b \<and> fle a' b'); death = (flt a b \<and> fge a' b')
      in buy_signals t' = buy_signals t
             + (if golden then 2 else if death then 0 else if fgt a b then 1 / 2 else 0)
       \<and> sell_signals t' = sell_signals t
             + (if golden then 0 else if death then 2 else if fgt a b then 0
                else if flt a b then 1 / 2 else 0)
       \<and> neutral_signals t' = neutral_signals t
             + (if golden \<or> death \<or> fgt a b \<or> flt a b then 0 else 1 / 2))"
proof -
  have k1: "iloc xs (- 1) = Inr (xs ! (n - 1))" "iloc ys (- 1) = Inr (ys ! (n - 1))"
    "iloc c (- 1) = Inr (c ! (n - 1))"
    using iloc_back [of 1 xs] iloc_back [of 1 ys] iloc_back [of 1 c] assms(5-8) by simp_all
  have k20: "iloc xs (- 20) = Inr (xs ! (n - 20))" "iloc ys (- 20) = Inr (ys ! (n - 20))"
    using iloc_back [of 20 xs] iloc_back [of 20 ys] assms(6-8) by simp_all
  show ?thesis
    using assms(1-4)
    by (simp add: analyze_sma_def sma_gate_def has_col_def cell_at_def cell_cmp_def
        and_also_def col_def k1 k20 Let_def)
qed

theorem sma_cross_rule_witness:
  "\<exists>t'. analyze_sma ex_golden_frame [''SMA''] tally0 = Inr t'
      \<and> buy_signals t' = 2 \<and> sell_signals t' = 0 \<and> neutral_signals t' = 0"
proof -
  have sel: "''SMA'' \<in> set [''SMA'']" by simp
  have cols: "columns ex_golden_frame ''close'' = Some (replicate 20 (Fin 5))"
    "columns ex_golden_frame ''SMA_50'' = Some (Fin 1 # replicate 19 (Fin 3))"
    "columns ex_golden_frame ''SMA_200'' = Some (replicate 20 (Fin 2))"
    by (simp_all add: ex_golden_frame_def mk_df_def)
  have len: "length (replicate 20 (Fin 5)) = 20" "length (Fin 1 # replicate 19 (Fin 3)) = 20"
    "length (replicate 20 (Fin 2)) = 20" "(20::nat) \<le> 20"
    by simp_all
  from sma_cross_rule [OF sel cols len, of tally0]
  show ?thesis by (simp add: Let_def fgt_def fge_def tally0_def)
qed

subsection \<open>Scoring and consolidation on short series\<close>

lemma has_series_same_but:
  "same_but ks df df' \<Longrightarrow> k \<notin> ks \<Longrightarrow> has_series df k n \<Longrightarrow> has_series df' k n"
  by (simp add: same_but_def has_series_def)

lemma engine_updates_series:
  assumes "engine_updates df = Inr df'" and "columns df ''close'' = Some c"
  shows "has_series df' ''RSI'' (length c) \<and> has_series df' ''MACD'' (length c)
       \<and> has_series df' ''MACD_signal'' (length c) \<and> has_series df' ''MACD_hist'' (length c)
       \<and> has_series df' ''BB_upper'' (length c) \<and> has_series df' ''BB_middle'' (length c)
       \<and> has_series df' ''BB_lower'' (length c)
       \<and> has_series df' ''EMA_20'' (length c) \<and> has_series df' ''EMA_50'' (length c)"
proof -
  from assms(1) obtain d1 d2 d3 d4 where
    s: "rsi_update 14 df = Inr d1" "macd_update 12 26 9 d1 = Inr d2"
       "bollinger_update 20 2 d2 = Inr d3" "moving_averages_update d3 = Inr d4"
       "signals_update d4 = Inr df'"
    by (auto simp: engine_updates_def bindE_Inr_iff)
  have c1: "columns d1 ''close'' = Some c" and r1: "has_series d1 ''RSI'' (length c)"
    using s(1) assms(2)
    by (auto simp: rsi_update_def col_def set_col_def Let_def has_series_def)
  have c2: "columns d2 ''close'' = Some c" and r2: "has_series d2 ''RSI'' (length c)"
    "has_series d2 ''MACD'' (length c)" "has_series d2 ''MACD_signal'' (length c)"
    "has_series d2 ''MACD_hist'' (length c)"
    using s(2) c1 r1
    by (auto simp: macd_update_def col_def set_col_def Let_def has_series_def)
  have c3: "columns d3 ''close'' = Some c" and r3: "has_series d3 ''RSI'' (length c)"
    "has_series d3 ''MACD'' (length c)" "has_series d3 ''MACD_signal'' (length c)"
    "has_series d3 ''MACD_hist'' (length c)" "has_series d3 ''BB_upper'' (length c)"
    "has_series d3 ''BB_middle'' (length c)" "has_series d3 ''BB_lower'' (length c)"
    using s(3) c2 r2
    by (auto simp: bollinger_update_def col_def set_col_def Let_def has_series_def)
  have r4: "has_series d4 ''RSI'' (length c)"
    "has_series d4 ''MACD'' (length c)" "has_series d4 ''MACD_signal'' (length c)"
    "has_series d4 ''MACD_hist'' (length c)" "has_series d4 ''BB_upper'' (length c)"
    "has_series d4 ''BB_middle'' (length c)" "has_series d4 ''BB_lower'' (length c)"
    "has_series d4 ''EMA_20'' (length c)" "has_series d4 ''EMA_50'' (length c)"
    using s(4) c3 r3
    by (auto simp: moving_averages_update_def col_def set_col_def Let_def has_series_def)
  note sb = s(5) [THEN signals_update_same_but]
  show ?thesis
    using r4 by (auto intro!: has_series_same_but [OF sb])
qed

lemma returns_Inr [simp]: "returns (Inr x)"
  by (simp add: returns_def)

lemma returns_bindE: "returns m \<Longrightarrow> (\<And>x. m = Inr x \<Longrightarrow> returns (f x)) \<Longrightarrow> returns (bindE m f)"
  by (auto simp: returns_def)

lemma returns_and_also:
  "returns p \<Longrightarrow> (p = Inr True \<Longrightarrow> returns q) \<Longrightarrow> returns (and_also p q)"
  by (auto simp: returns_def and_also_def)

lemma cell_at_returns:
  assumes "has_series df k n" "0 < j" "j \<le> n"
  shows "returns (cell_at df k (- int j))"
  using assms by (auto simp: has_series_def cell_at_def col_def iloc_def)

lemma cell_cmp_returns:
  assumes "has_series df k1 n" "has_series df k2 n" "0 < i" "i \<le> n" "0 < j" "j \<le> n"
  shows "returns (cell_cmp rel df k1 (- int i) k2 (- int j))"
  using assms by (auto simp: has_series_def cell_cmp_def col_def iloc_def)

lemma cell_cmp_last:
  assumes "has_series df k1 n" "has_series df k2 n" "0 < n"
  shows "returns (cell_cmp rel df k1 (- 1) k2 (- 1))"
  using cell_cmp_returns [OF assms(1,2), of 1 1 rel] assms(3) by simp

lemma cell_cmp_prev:
  assumes "has_series df k1 n" "has_series df k2 n" "2 \<le> n"
  shows "returns (cell_cmp rel df k1 (- 2) k2 (- 2))"
  using cell_cmp_returns [OF assms(1,2), of 2 2 rel] assms(3) by simp

lemma cell_cmp_last_prev:
  assumes "has_series df k1 n" "has_series df k2 n" "2 \<le> n"
  shows "returns (cell_cmp rel df k1 (- 1) k2 (- 2))"
  using cell_cmp_returns [OF assms(1,2), of 1 2 rel] assms(3) by simp

lemma cell_cmp_back20:
  assumes "has_series df k1 n" "has_series df k2 n" "20 \<le> n"
  shows "returns (cell_cmp rel df k1 (- 20) k2 (- 20))"
  using cell_cmp_returns [OF assms(1,2), of 20 20 rel] assms(3) by simp

lemma cell_at_last:
  assumes "has_series df k n" "0 < n"
  shows "returns (cell_at df k (- 1))"
  using cell_at_returns [OF assms(1), of 1] assms(2) by simp

lemma sma_test_returns:
  assumes "engine_frame df n" "0 < n"
  shows "returns (and_also (cell_cmp fgt df ''SMA_50'' (- 1) ''SMA_200'' (- 1))
                   (cell_cmp fle df ''SMA_50'' (- 20) ''SMA_200'' (- 20)))"
proof (cases "20 \<le> n")
  case True
  with assms show ?thesis
    by (auto simp: engine_frame_def intro!: returns_and_also cell_cmp_last cell_cmp_back20)
next
  case False
  with assms have nan: "cell_at df ''SMA_200'' (- 1) = Inr NaN" by (simp add: engine_frame_def)
  from assms have r: "returns (cell_cmp fgt df ''SMA_50'' (- 1) ''SMA_200'' (- 1))"
    by (auto simp: engine_frame_def intro!: cell_cmp_last)
  have "cell_cmp fgt df ''SMA_50'' (- 1) ''SMA_200'' (- 1) \<noteq> Inr True"
    using nan
    by (auto simp: cell_cmp_def cell_at_def bindE_def fgt_def split: sum.splits)
  with r show ?thesis by (auto simp: returns_def and_also_def)
qed

lemma score_returns:
  assumes "engine_frame df n" "2 \<le> n"
  shows "returns (calculate_crypto_score df sel)"
proof -
  have n: "0 < n" using assms(2) by simp
  note hs = assms(1) [unfolded engine_frame_def, THEN conjunct1, simplified]
  have close: "has_series df ''close'' n" and vol: "has_series df ''volume'' n" using hs by simp_all
  have 0: "returns (score_momentum df)"
    using close n
    by (auto simp: score_momentum_def price_change_of_def has_series_def col_def iloc_def
        Suc_le_eq)
  have 1: "returns (score_rsi df sel)"
    using hs n
    by (auto simp: score_rsi_def last_rsi_def has_series_def col_def iloc_def Suc_le_eq)
  have 2: "returns (score_macd df sel)"
    using hs assms(2) n unfolding score_macd_def macd_above_def macd_hist_rising_def macd_crossed_def
    by (auto intro!: returns_bindE returns_and_also cell_cmp_last cell_cmp_prev cell_cmp_last_prev)
  have 3: "returns (score_bollinger df sel)"
    using hs assms(2) n unfolding score_bollinger_def near_lower_band_def band_bounce_def
    by (auto intro!: returns_bindE returns_and_also cell_cmp_last cell_cmp_prev cell_cmp_last_prev)
  have 4: "returns (score_ema df sel)"
    using hs assms(2) n unfolding score_ema_def ema_above_def ema_crossed_def
    by (auto intro!: returns_bindE returns_and_also cell_cmp_last cell_cmp_prev cell_cmp_last_prev)
  have 5: "returns (score_sma df sel)"
    using hs n sma_test_returns [OF assms(1) n]
    unfolding score_sma_def price_above_smas_def sma_above_def sma_golden_def
    by (auto intro!: returns_bindE returns_and_also cell_cmp_last)
  have 6: "returns (score_volume df)"
  proof -
    from vol obtain xs where xs: "columns df ''volume'' = Some xs" "length xs = n"
      by (auto simp: has_series_def)
    have m: "volume_mean_of df = Inr (rolling_mean 7 xs ! (n - 1))"
      using xs n iloc_back [of 1 "rolling_mean 7 xs"]
      by (simp add: volume_mean_of_def col_def)
    have c: "volume_change_of df vm = Inr (fdiv (xs ! (n - 1)) vm)" for vm
      using xs n iloc_back [of 1 xs] by (simp add: volume_change_of_def col_def)
    show ?thesis by (simp add: score_volume_def volume_try_def m c)
  qed
  from 0 1 2 3 4 5 6 show ?thesis
    unfolding calculate_crypto_score_def by (auto simp: returns_def)
qed

lemma analyze_returns:
  assumes "engine_frame df n" "2 \<le> n"
  shows "returns (analyze_crypto df sel)"
proof -
  have n: "0 < n" using assms(2) by simp
  note hs = assms(1) [unfolded engine_frame_def, THEN conjunct1, simplified]
  have 1: "returns (analyze_rsi df sel t)" for t
    using hs n unfolding analyze_rsi_def
    by (auto intro!: returns_bindE cell_at_last simp: Let_def)
  have 2: "returns (analyze_macd df sel t)" for t
    using hs n assms(2) unfolding analyze_macd_def
    by (auto intro!: returns_bindE returns_and_also cell_at_last cell_cmp_last cell_cmp_prev
        simp: Let_def)
  have 3: "returns (analyze_bollinger df sel t)" for t
    using hs n unfolding analyze_bollinger_def
    by (auto intro!: returns_bindE cell_at_last simp: Let_def)
  have 5: "returns (analyze_ema df sel t)" for t
    using hs n assms(2) unfolding analyze_ema_def
    by (auto intro!: returns_bindE returns_and_also cell_at_last cell_cmp_prev simp: Let_def)
  have 4: "returns (analyze_sma df sel t)" for t
  proof (cases "20 \<le> n")
    case True
    with hs n show ?thesis unfolding analyze_sma_def
      by (auto intro!: returns_bindE returns_and_also cell_at_last cell_cmp_back20
          simp: Let_def)
  next
    case False
    with assms have nan: "cell_at df ''SMA_200'' (- 1) = Inr NaN"
      by (simp add: engine_frame_def)
    have c: "returns (cell_at df ''close'' (- 1))" "returns (cell_at df ''SMA_50'' (- 1))"
      using hs n by (auto intro!: cell_at_last)
    then show ?thesis
      using nan unfolding analyze_sma_def
      by (auto simp: returns_def and_also_def Let_def fgt_def)
  qed
  have "returns (count_votes df sel)"
    unfolding count_votes_def using 1 2 3 4 5 by (auto intro!: returns_bindE)
  then show ?thesis by (auto simp: analyze_crypto_def returns_def)
qed

lemma short_sma_200_undefined:
  assumes "length c = n" "0 < n" "n < 200"
  shows "iloc (rolling_mean 200 c) (- 1) = Inr NaN"
proof -
  have "length (window_at 200 c (n - 1)) < 200"
    using assms by (simp add: window_at_def)
  then have "window_mean 200 (window_at 200 c (n - 1)) = NaN"
    by (simp add: window_mean_def full_window_def)
  then show ?thesis
    using assms iloc_back [of 1 "rolling_mean 200 c"] by (simp add: rolling_mean_nth)
qed

lemma engine_makes_engine_frame:
  assumes "engine_updates data = Inr df"
    and "columns data ''close'' = Some c" and "columns data ''volume'' = Some v"
    and "length c = n" and "length v = n" and "0 < n"
  shows "engine_frame df n"
proof -
  note sma = engine_updates_sma [OF assms(1,2)]
  note ser = engine_updates_series [OF assms(1,2)]
  from engine_updates_same_but [OF assms(1)] assms(3,5)
  have vol: "has_series df ''volume'' n"
    by (simp add: same_but_def engine_columns_def has_series_def)
  have nan: "cell_at df ''SMA_200'' (- 1) = Inr NaN" if "n < 20"
    using short_sma_200_undefined [OF assms(4,6)] that sma
    by (simp add: cell_at_def col_def)
  show ?thesis
    using sma ser vol nan assms(4)
    by (simp add: engine_frame_def has_series_def)
qed

lemma never_raises_from_two_bars:
  assumes "columns data ''close'' = Some c" and "columns data ''volume'' = Some v"
    and "length c = n" and "length v = n" and "2 \<le> n"
  shows "\<exists>df s r. indicators_of data = Inr df \<and> calculate_crypto_score df sel = Inr s
            \<and> analyze_crypto df sel = Inr r"
proof -
  from engine_updates_returns [OF assms(1)]
  obtain df where df: "engine_updates data = Inr df" by blast
  have n: "0 < n" using assms(5) by simp
  note ef = engine_makes_engine_frame [OF df assms(1-4) n]
  from score_returns [OF ef assms(5), of sel] analyze_returns [OF ef assms(5), of sel] df
  show ?thesis by (auto simp: returns_def indicators_of_eq)
qed

lemma nan_compares_false [simp]:
  "\<not> flt NaN x" "\<not> flt x NaN" "\<not> fle NaN x" "\<not> fle x NaN"
  "\<not> fgt NaN x" "\<not> fgt x NaN" "\<not> fge NaN x" "\<not> fge x NaN"
  by (cases x; simp add: fgt_def fge_def)+

lemma fmul_NaN [simp]: "fmul NaN y = NaN"
  by simp

























end
